theory Spec2Isabelle
  imports Complex_Main
begin

section \<open>Rasters as the remote service sees them\<close>

text \<open>
  The script \<^verbatim>\<open>urban_heat_island.py\<close> builds its rasters with the Earth Engine
  image operators. Each operator works pixel by pixel, so a single-band raster is
  modelled by the value it has at every pixel: \<open>Some v\<close> where the pixel holds
  the number \<open>v\<close>, \<open>None\<close> where the pixel is masked (carries no value).
  Numbers are real numbers; the rounding of the service's floating-point
  arithmetic is not modelled.
\<close>

type_synonym pixel = "int \<times> int"

record image =
  band :: string
  px :: "pixel \<Rightarrow> real option"
  props :: "(string \<times> real) list"

text \<open>A geometry says which pixels it covers; a feature collection is a list of them.\<close>

type_synonym geometry = "pixel \<Rightarrow> bool"
type_synonym features = "geometry list"

text \<open>\<^verbatim>\<open>ee.Image.constant(c)\<close>: the value \<open>c\<close> everywhere, nothing masked.\<close>

definition Image_constant :: "real \<Rightarrow> image" where
  "Image_constant c = \<lparr>band = ''constant'', px = (\<lambda>_. Some c), props = []\<rparr>"

text \<open>
  The comparisons \<^verbatim>\<open>gte\<close>, \<^verbatim>\<open>lt\<close>, \<^verbatim>\<open>eq\<close> against a number give 1 where the
  comparison holds and 0 where it does not; a masked pixel stays masked. The result
  of a comparison or of an arithmetic operator keeps the band name of its first
  operand and none of its properties.
\<close>

definition Image_gte :: "image \<Rightarrow> real \<Rightarrow> image" where
  "Image_gte im c =
     im\<lparr>px := (\<lambda>p. map_option (\<lambda>v. if v \<ge> c then 1 else 0) (px im p)),
        props := []\<rparr>"

definition Image_lt :: "image \<Rightarrow> real \<Rightarrow> image" where
  "Image_lt im c =
     im\<lparr>px := (\<lambda>p. map_option (\<lambda>v. if v < c then 1 else 0) (px im p)),
        props := []\<rparr>"

definition Image_eq :: "image \<Rightarrow> real \<Rightarrow> image" where
  "Image_eq im c =
     im\<lparr>px := (\<lambda>p. map_option (\<lambda>v. if v = c then 1 else 0) (px im p)),
        props := []\<rparr>"

text \<open>\<^verbatim>\<open>a.And(b)\<close>: 1 where both values are non-zero, else 0; masked where either is.\<close>

definition Image_And :: "image \<Rightarrow> image \<Rightarrow> image" where
  "Image_And a b = a\<lparr>px := (\<lambda>p. case (px a p, px b p) of
      (Some x, Some y) \<Rightarrow> Some (if x \<noteq> 0 \<and> y \<noteq> 0 then 1 else 0)
    | _ \<Rightarrow> None), props := []\<rparr>"

text \<open>
  \<^verbatim>\<open>input.where(test, value)\<close> with a number as value: where the test is
  non-zero the output is \<open>value\<close>, elsewhere the input pixel; where the test is masked
  the input pixel is used; a masked input pixel stays masked.
\<close>

definition Image_where :: "image \<Rightarrow> image \<Rightarrow> real \<Rightarrow> image" where
  "Image_where input test val = input\<lparr>px := (\<lambda>p. case px input p of
      None \<Rightarrow> None
    | Some v \<Rightarrow> (case px test p of
        None \<Rightarrow> Some v
      | Some t \<Rightarrow> if t \<noteq> 0 then Some val else Some v))\<rparr>"

text \<open>
  \<^verbatim>\<open>image.updateMask(mask)\<close>: a pixel keeps its value only where the mask raster
  holds a non-zero value; where the mask raster is zero or itself masked the output
  pixel is masked.
\<close>

definition Image_updateMask :: "image \<Rightarrow> image \<Rightarrow> image" where
  "Image_updateMask im msk = im\<lparr>px := (\<lambda>p. case px msk p of
      None \<Rightarrow> None
    | Some m \<Rightarrow> if m \<noteq> 0 then px im p else None)\<rparr>"

text \<open>\<^verbatim>\<open>image.multiply(n)\<close> and \<^verbatim>\<open>image.add(n)\<close> with a number.\<close>

definition Image_multiply :: "image \<Rightarrow> real \<Rightarrow> image" where
  "Image_multiply im n =
     im\<lparr>px := (\<lambda>p. map_option (\<lambda>v. v * n) (px im p)),
        props := []\<rparr>"

definition Image_add :: "image \<Rightarrow> real \<Rightarrow> image" where
  "Image_add im n =
     im\<lparr>px := (\<lambda>p. map_option (\<lambda>v. v + n) (px im p)),
        props := []\<rparr>"

text \<open>
  \<^verbatim>\<open>image.get(name)\<close> reads a property, \<^verbatim>\<open>image.propertyNames()\<close> lists the
  names, and \<^verbatim>\<open>dest.copyProperties(source, names)\<close> writes the listed properties
  of the source onto the destination.
\<close>

definition Image_get :: "image \<Rightarrow> string \<Rightarrow> real option" where
  "Image_get im name = map_of (props im) name"

definition Image_propertyNames :: "image \<Rightarrow> string list" where
  "Image_propertyNames im = map fst (props im)"

definition Image_copyProperties :: "image \<Rightarrow> image \<Rightarrow> string list \<Rightarrow> image" where
  "Image_copyProperties dest source names =
     dest\<lparr>props := filter (\<lambda>(k, v). k \<in> set names) (props source) @
                     filter (\<lambda>(k, v). k \<notin> set names) (props dest)\<rparr>"

text \<open>\<^verbatim>\<open>image.rename(name)\<close> and \<^verbatim>\<open>image.clip(region)\<close>.\<close>

definition Image_rename :: "image \<Rightarrow> string \<Rightarrow> image" where
  "Image_rename im name = im\<lparr>band := name\<rparr>"

definition Image_clip :: "image \<Rightarrow> features \<Rightarrow> image" where
  "Image_clip im region = im\<lparr>px := (\<lambda>p. if (\<exists>g \<in> set region. g p) then px im p else None)\<rparr>"

text \<open>
  \<^verbatim>\<open>image.expression(text, operands)\<close>. The text is kept in parsed form; the only
  operators the script writes are subtraction and division. An operand is a raster or
  a number. The service's division gives 0 where the divisor is 0.
\<close>

datatype expr = Var string | Sub expr expr | Div expr expr

datatype operand = Raster image | Number real

fun eval_expr :: "(string \<rightharpoonup> operand) \<Rightarrow> pixel \<Rightarrow> expr \<Rightarrow> real option" where
  "eval_expr env p (Var x) =
     (case env x of
        None \<Rightarrow> None
      | Some (Raster im) \<Rightarrow> px im p
      | Some (Number n) \<Rightarrow> Some n)"
| "eval_expr env p (Sub a b) =
     (case (eval_expr env p a, eval_expr env p b) of
        (Some x, Some y) \<Rightarrow> Some (x - y)
      | _ \<Rightarrow> None)"
| "eval_expr env p (Div a b) =
     (case (eval_expr env p a, eval_expr env p b) of
        (Some x, Some y) \<Rightarrow> Some (if y = 0 then 0 else x / y)
      | _ \<Rightarrow> None)"

definition Image_expression :: "image \<Rightarrow> expr \<Rightarrow> (string \<rightharpoonup> operand) \<Rightarrow> image" where
  "Image_expression im e env = im\<lparr>px := (\<lambda>p. eval_expr env p e)\<rparr>"

section \<open>The raster steps of the script\<close>

text \<open>
  \<^verbatim>\<open>apply_thermal_scaling(image)\<close>, the function mapped over the thermal scenes.
  A scene that lacks one of the two properties makes the computation invalid
  (\<open>None\<close>): the service rejects an operator whose number argument is null.
\<close>

definition apply_thermal_scaling :: "image \<Rightarrow> image option" where
  "apply_thermal_scaling img =
     (case Image_get img ''TEMPERATURE_MULT_BAND_ST_B10'' of
        None \<Rightarrow> None
      | Some scaleFactor \<Rightarrow>
         (case Image_get img ''TEMPERATURE_ADD_BAND_ST_B10'' of
            None \<Rightarrow> None
          | Some offsetFactor \<Rightarrow>
              let brightnessTemp = Image_add (Image_multiply img scaleFactor) offsetFactor
              in Some (Image_copyProperties brightnessTemp img (Image_propertyNames img))))"

text \<open>\<^verbatim>\<open>collection.map(f)\<close>: valid only if \<open>f\<close> is valid on every element.\<close>

fun map_collection :: "(image \<Rightarrow> image option) \<Rightarrow> image list \<Rightarrow> image list option" where
  "map_collection f [] = Some []"
| "map_collection f (x # xs) =
     (case f x of
        None \<Rightarrow> None
      | Some y \<Rightarrow> (case map_collection f xs of None \<Rightarrow> None | Some ys \<Rightarrow> Some (y # ys)))"

section \<open>Output, library calls and exceptions\<close>

text \<open>
  Python exceptions. \<open>Exception msg\<close> stands for an instance of any class derived
  from \<^verbatim>\<open>Exception\<close>; \<^verbatim>\<open>KeyboardInterrupt\<close> and \<^verbatim>\<open>SystemExit\<close> derive from
  \<^verbatim>\<open>BaseException\<close> only, so \<^verbatim>\<open>except Exception\<close> does not catch them.
\<close>

datatype exn = Exception string | KeyboardInterrupt | SystemExit int

text \<open>Values that the script hands to a library call or interpolates into a message.\<close>

datatype arg =
    Str string
  | Num real
  | Coords "real list"
  | Strs "string list"
  | Img image
  | Reg features
  | Err exn
  | NoneVal
  | Dict "(string \<times> arg) list"
  | Kw string arg

text \<open>
  What a run does, in order: a line written by \<^verbatim>\<open>print\<close> (its pieces, literal text
  and interpolated values; number formatting is not modelled and glyphs outside
  ASCII are left out of the text), or a call into the \<^verbatim>\<open>ee\<close> or \<^verbatim>\<open>geemap\<close> library
  (its name and arguments). The per-pixel image operators above, and the calls inside
  the function that is mapped over the thermal scenes, only build a deferred
  computation; they are modelled by what they compute and are not recorded.
\<close>

datatype event = Print "arg list" | Call string "arg list"

record task =
  task_args :: "arg list"
  task_id :: "string option"

text \<open>
  The world outside the script. \<open>faults w n\<close> is the exception that the library call
  number \<open>n\<close> of the run raises, if any; the other fields are what the remote
  service answers.
\<close>

record world =
  faults :: "nat \<Rightarrow> exn option"
  sv_FeatureCollection :: "string \<Rightarrow> features"
  sv_Point :: "real list \<Rightarrow> geometry"
  sv_filterBounds_features :: "features \<Rightarrow> geometry \<Rightarrow> features"
  sv_simplify :: "geometry \<Rightarrow> real \<Rightarrow> geometry"
  sv_ImageCollection :: "string \<Rightarrow> image list"
  sv_select :: "image list \<Rightarrow> string \<Rightarrow> image list"
  sv_filterDate :: "image list \<Rightarrow> string \<Rightarrow> string \<Rightarrow> image list"
  sv_filterBounds :: "image list \<Rightarrow> features \<Rightarrow> image list"
  sv_calendarRange :: "nat \<Rightarrow> nat \<Rightarrow> string \<Rightarrow> image \<Rightarrow> bool"
  sv_mode :: "image list \<Rightarrow> image"
  sv_median :: "image list \<Rightarrow> image"
  sv_task_id :: string

record pystate =
  trace :: "event list"
  ncalls :: nat

type_synonym 'a io = "pystate \<Rightarrow> (exn + 'a) \<times> pystate"

definition io_return :: "'a \<Rightarrow> 'a io" where
  "io_return x = (\<lambda>s. (Inr x, s))"

definition io_bind :: "'a io \<Rightarrow> ('a \<Rightarrow> 'b io) \<Rightarrow> 'b io" where
  "io_bind m f = (\<lambda>s. case m s of (Inl e, s') \<Rightarrow> (Inl e, s') | (Inr x, s') \<Rightarrow> f x s')"

definition io_then :: "'a io \<Rightarrow> 'b io \<Rightarrow> 'b io" where
  "io_then m k = io_bind m (\<lambda>_. k)"

definition raise :: "exn \<Rightarrow> 'a io" where
  "raise e = (\<lambda>s. (Inl e, s))"

definition print :: "arg list \<Rightarrow> unit io" where
  "print items = (\<lambda>s. (Inr (), s\<lparr>trace := trace s @ [Print items]\<rparr>))"

text \<open>A library call is recorded, then raises or returns as the world decides.\<close>

definition call :: "world \<Rightarrow> string \<Rightarrow> arg list \<Rightarrow> 'a \<Rightarrow> 'a io" where
  "call w name args result = (\<lambda>s.
     let s' = s\<lparr>trace := trace s @ [Call name args], ncalls := ncalls s + 1\<rparr>
     in case faults w (ncalls s) of
          Some e \<Rightarrow> (Inl e, s')
        | None \<Rightarrow> (Inr result, s'))"

text \<open>\<^verbatim>\<open>try: body except Exception as e: handler\<close>.\<close>

definition try_except_Exception :: "'a io \<Rightarrow> (exn \<Rightarrow> 'a io) \<Rightarrow> 'a io" where
  "try_except_Exception body handler = (\<lambda>s.
     case body s of
       (Inl (Exception msg), s') \<Rightarrow> handler (Exception msg) s'
     | r \<Rightarrow> r)"

text \<open>\<^verbatim>\<open>xs[i]\<close> for a literal index \<open>i \<ge> 0\<close>: out of range raises \<^verbatim>\<open>IndexError\<close>.\<close>

definition index :: "'a list \<Rightarrow> nat \<Rightarrow> 'a io" where
  "index xs i =
     (if i < length xs then io_return (xs ! i)
      else raise (Exception ''list index out of range''))"

text \<open>
  \<^verbatim>\<open>x.getInfo()\<close> asks the service for the value of a deferred computation; an
  invalid computation (\<open>None\<close>) makes the request fail.
\<close>

definition getInfo :: "world \<Rightarrow> 'a option \<Rightarrow> 'a io" where
  "getInfo w x =
     io_bind (call w ''getInfo'' [] x) (\<lambda>r.
       case r of
         None \<Rightarrow> raise (Exception ''EEException'')
       | Some v \<Rightarrow> io_return v)"

section \<open>The functions of the script\<close>

definition initialize_earth_engine :: "world \<Rightarrow> unit io" where
  "initialize_earth_engine w =
     try_except_Exception
       (io_then (call w ''ee.Initialize'' [] ())
                (print [Str ''Earth Engine initialized successfully'']))
       (\<lambda>e.
          io_then (print [Str ''Earth Engine initialization failed''])
         (io_then (print [Str ''  Error: '', Err e])
         (io_then (print [Str ''\<newline>Please authenticate with Google Cloud:''])
         (io_then (print [Str ''  Run: earthengine authenticate''])
                  (raise (SystemExit 1))))))"

definition load_admin_boundaries :: "world \<Rightarrow> features io" where
  "load_admin_boundaries w =
     io_then (print [Str ''\<newline>Loading FAO Admin Boundaries...''])
    (io_bind (call w ''ee.FeatureCollection'' [Str ''FAO/GAUL/2015/level1'']
                (sv_FeatureCollection w ''FAO/GAUL/2015/level1'')) (\<lambda>adminRegions.
     io_return adminRegions))"

definition get_roi :: "world \<Rightarrow> real list \<Rightarrow> features \<Rightarrow> (features \<times> geometry) io" where
  "get_roi w centralCoord adminRegions =
     io_then (print [Str ''\<newline>Extracting ROI for coordinates: '', Coords centralCoord])
    (io_bind (call w ''ee.Geometry.Point'' [Coords centralCoord]
                (sv_Point w centralCoord)) (\<lambda>cityPoint.
     io_bind (call w ''filterBounds'' []
                (sv_filterBounds_features w adminRegions cityPoint)) (\<lambda>filtered.
     io_bind (call w ''map'' []
                (map (\<lambda>feature. sv_simplify w feature 1000) filtered)) (\<lambda>analysisBoundary.
     io_return (analysisBoundary, cityPoint)))))"

definition get_urban_mask :: "world \<Rightarrow> features \<Rightarrow> string \<Rightarrow> string \<Rightarrow> image io" where
  "get_urban_mask w analysisBoundary startDate endDate =
     io_then (print [Str ''\<newline>Loading Dynamic World urban classification...''])
    (io_bind (call w ''ee.ImageCollection'' [Str ''GOOGLE/DYNAMICWORLD/V1'']
                (sv_ImageCollection w ''GOOGLE/DYNAMICWORLD/V1'')) (\<lambda>c0.
     io_bind (call w ''select'' [Str ''label''] (sv_select w c0 ''label'')) (\<lambda>c1.
     io_bind (call w ''filterDate'' [Str startDate, Str endDate]
                (sv_filterDate w c1 startDate endDate)) (\<lambda>c2.
     io_bind (call w ''filterBounds'' [Reg analysisBoundary]
                (sv_filterBounds w c2 analysisBoundary)) (\<lambda>c3.
     io_bind (call w ''ee.Filter.calendarRange'' [Num 5, Num 9, Str ''month'']
                (sv_calendarRange w 5 9 ''month'')) (\<lambda>summer.
     io_bind (call w ''filter'' [] (filter summer c3)) (\<lambda>c4.
     io_bind (call w ''mode'' [] (sv_mode w c4)) (\<lambda>label.
     let dynamicUrban = Image_eq label 6 in
     io_then (print [Str ''Urban mask created (Class 6 - Built Area)''])
    (io_return dynamicUrban)))))))))"

definition load_landsat_thermal ::
  "world \<Rightarrow> features \<Rightarrow> string \<Rightarrow> string \<Rightarrow> image list option io" where
  "load_landsat_thermal w analysisBoundary startDate endDate =
     io_then (print [Str ''\<newline>Loading Landsat 8 thermal data ('', Str startDate,
                     Str '' to '', Str endDate, Str '')...''])
    (io_bind (call w ''ee.ImageCollection'' [Str ''LANDSAT/LC08/C02/T1_L2'']
                (sv_ImageCollection w ''LANDSAT/LC08/C02/T1_L2'')) (\<lambda>c0.
     io_bind (call w ''select'' [Str ''ST_B10''] (sv_select w c0 ''ST_B10'')) (\<lambda>c1.
     io_bind (call w ''filterBounds'' [Reg analysisBoundary]
                (sv_filterBounds w c1 analysisBoundary)) (\<lambda>c2.
     io_bind (call w ''filterDate'' [Str startDate, Str endDate]
                (sv_filterDate w c2 startDate endDate)) (\<lambda>c3.
     io_bind (call w ''ee.Filter.lt'' [Str ''CLOUD_COVER'', Num 10]
                (\<lambda>im. case Image_get im ''CLOUD_COVER'' of None \<Rightarrow> False | Some c \<Rightarrow> c < 10))
             (\<lambda>clear.
     io_bind (call w ''filter'' [] (filter clear c3)) (\<lambda>metadata.
     io_bind (call w ''size'' [] (Some (length metadata))) (\<lambda>size.
     io_bind (getInfo w size) (\<lambda>n.
     io_then (print [Str ''Found '', Num (real n),
                     Str '' Landsat 8 scenes (cloud cover < 10%)''])
    (io_bind (call w ''map'' [] (map_collection apply_thermal_scaling metadata))
             (\<lambda>landsatThermal.
     io_return landsatThermal)))))))))))"

text \<open>
  \<^verbatim>\<open>image.reduceRegion(d)\<close> as the script writes it, with one positional dictionary
  holding the reducer, the geometry, the scale and the pixel limit. The Python client
  does not unpack a dictionary into keyword arguments: it takes the first positional
  argument for the reducer, cannot turn a dictionary into one, and raises before it
  asks the service for anything. So the call is recorded and then raises, whatever the
  world answers; it never returns a value. The exception is of class \<^verbatim>\<open>Exception\<close>,
  and its text here names its class.
\<close>

definition reduceRegion_positional :: "world \<Rightarrow> arg list \<Rightarrow> 'a io" where
  "reduceRegion_positional w args =
     io_bind (call w ''reduceRegion'' args ()) (\<lambda>_. raise (Exception ''TypeError''))"

definition compute_lst ::
  "world \<Rightarrow> image list option \<Rightarrow> features \<Rightarrow> (image \<times> real) io" where
  "compute_lst w landsatThermal analysisBoundary =
     io_then (print [Str ''\<newline>Computing median Land Surface Temperature...''])
    (io_bind (call w ''median'' [] (map_option (sv_median w) landsatThermal))
             (\<lambda>medianThermal.
     io_bind (call w ''ee.Reducer.mean'' [] ()) (\<lambda>reducer.
     io_bind (reduceRegion_positional w
                [Dict [(''reducer'', Str ''mean''), (''geometry'', Reg analysisBoundary),
                       (''scale'', Num 100), (''maxPixels'', Num (10 ^ 13))]])
             (\<lambda>d.
     io_bind (call w ''values'' [] d) (\<lambda>vs.
     io_bind (call w ''get'' [Num 0] vs) (\<lambda>v.
     io_bind (call w ''ee.Number'' [] v) (\<lambda>meanLST.
     io_bind (getInfo w meanLST) (\<lambda>meanLST_value.
     io_then (print [Str ''Mean LST: '', Num meanLST_value, Str '' K ('',
                     Num (meanLST_value - 273.15), Str ''C)''])
     (case medianThermal of
        Some m \<Rightarrow> io_return (m, meanLST_value)
      | None \<Rightarrow> raise (Exception ''EEException''))))))))))"

definition calculate_uhi_index :: "image \<Rightarrow> real \<Rightarrow> image io" where
  "calculate_uhi_index medianThermal meanLST =
     io_then (print [Str ''\<newline>Calculating UHI Index...''])
    (let uhiIndex =
       Image_rename
         (Image_expression medianThermal
            (Div (Sub (Var ''TIR'') (Var ''MEAN'')) (Var ''MEAN''))
            [''TIR'' \<mapsto> Raster medianThermal, ''MEAN'' \<mapsto> Number meanLST])
         ''UHI_Index''
     in
     io_then (print [Str ''UHI Index calculated (relative deviation from mean)''])
    (io_return uhiIndex))"

definition classify_uhi_intensity :: "image \<Rightarrow> image \<Rightarrow> image io" where
  "classify_uhi_intensity uhiIndex dynamicUrban =
     io_then (print [Str ''\<newline>Classifying UHI intensity levels...''])
    (let uhiClasses =
       Image_updateMask
         (Image_where
           (Image_where
             (Image_where
               (Image_where
                 (Image_where (Image_constant 0)
                   (Image_And (Image_gte uhiIndex 0) (Image_lt uhiIndex 0.005)) 1)
                 (Image_And (Image_gte uhiIndex 0.005) (Image_lt uhiIndex 0.010)) 2)
               (Image_And (Image_gte uhiIndex 0.010) (Image_lt uhiIndex 0.015)) 3)
             (Image_And (Image_gte uhiIndex 0.015) (Image_lt uhiIndex 0.020)) 4)
           (Image_gte uhiIndex 0.020) 5)
         dynamicUrban
     in
     io_then (print [Str ''Classification levels:''])
    (io_then (print [Str ''  1 = Mild        (0.000 - 0.005)''])
    (io_then (print [Str ''  2 = Moderate    (0.005 - 0.010)''])
    (io_then (print [Str ''  3 = Strong      (0.010 - 0.015)''])
    (io_then (print [Str ''  4 = Very Strong (0.015 - 0.020)''])
    (io_then (print [Str ''  5 = Extreme     (>= 0.020)''])
    (io_return uhiClasses)))))))"

text \<open>\<^verbatim>\<open>task.id\<close> as it is interpolated into a message.\<close>

definition shown_id :: "task \<Rightarrow> arg" where
  "shown_id t = (case task_id t of None \<Rightarrow> NoneVal | Some i \<Rightarrow> Str i)"

definition export_to_drive :: "world \<Rightarrow> image \<Rightarrow> features \<Rightarrow> string \<Rightarrow> task io" where
  "export_to_drive w uhiClasses analysisBoundary output_folder =
     io_then (print [Str ''\<newline>Exporting to Google Drive ('', Str output_folder, Str ''/)...''])
    (let args =
       [Kw ''image'' (Img (Image_clip uhiClasses analysisBoundary)),
        Kw ''description'' (Str ''UHI_Classes_Landsat8_Export''),
        Kw ''folder'' (Str output_folder),
        Kw ''fileNamePrefix'' (Str ''uhi_classes''),
        Kw ''region'' (Reg analysisBoundary),
        Kw ''scale'' (Num 100),
        Kw ''crs'' (Str ''EPSG:4326''),
        Kw ''maxPixels'' (Num (10 ^ 13)),
        Kw ''fileFormat'' (Str ''GeoTIFF'')]
     in
     io_bind (call w ''ee.batch.Export.image.toDrive'' args
                \<lparr>task_args = args, task_id = None\<rparr>) (\<lambda>task0.
     io_bind (call w ''Task.start'' []
                (task0\<lparr>task_id := Some (sv_task_id w)\<rparr>)) (\<lambda>task.
     io_then (print [Str ''Export task started: '', shown_id task])
    (io_then (print [Str ''  Check your Google Drive ('', Str output_folder,
                     Str ''/) for results''])
    (io_then (print [Str ''  Task ID: '', shown_id task])
    (io_return task))))))"

text \<open>The default value of the parameter \<^verbatim>\<open>output_folder\<close>.\<close>

definition default_output_folder :: string where
  "default_output_folder = ''UrbanHeat''"

definition visualize_interactive ::
  "world \<Rightarrow> image \<Rightarrow> image \<Rightarrow> features \<Rightarrow> real list \<Rightarrow> unit io" where
  "visualize_interactive w medianThermal uhiClasses analysisBoundary centralCoord =
     io_then (print [Str ''\<newline>Creating interactive visualization...''])
    (try_except_Exception
       (io_bind (index centralCoord 1) (\<lambda>c1.
        io_bind (index centralCoord 0) (\<lambda>c0.
        io_then (call w ''geemap.Map'' [Kw ''center'' (Coords [c1, c0]), Kw ''zoom'' (Num 10)] ())
       (io_then (call w ''Map.addLayer''
                   [Img (Image_clip medianThermal analysisBoundary),
                    Dict [(''min'', Num 280), (''max'', Num 310),
                          (''palette'', Strs [''blue'', ''cyan'', ''green'', ''yellow'', ''red''])],
                    Str ''LST (Kelvin)''] ())
       (io_then (call w ''Map.addLayer''
                   [Img (Image_clip uhiClasses analysisBoundary),
                    Dict [(''min'', Num 1), (''max'', Num 5),
                          (''palette'',
                           Strs [''white'', ''yellow'', ''orange'', ''red'', ''darkred''])],
                    Str ''UHI Classes''] ())
       (io_then (call w ''Map.addLayerControl'' [] ())
       (let output_file = ''uhi_map.html'' in
        io_then (call w ''Map.save'' [Str output_file] ())
       (io_then (print [Str ''Interactive map saved: '', Str output_file])
                (print [Str ''  Open this file in your browser to view the visualization''])
       ))))))))
       (\<lambda>e.
          io_then (print [Str ''Could not create interactive map: '', Err e])
                  (print [Str ''  (geemap may not be installed. Install with: pip install geemap)''])))"

definition main :: "world \<Rightarrow> unit io" where
  "main w =
     io_then (print [Str (replicate 60 CHR ''='')])
    (io_then (print [Str ''Urban Heat Island Detection using Landsat 8''])
    (io_then (print [Str ''Google Earth Engine Python API''])
    (io_then (print [Str (replicate 60 CHR ''='')])
    (io_then (initialize_earth_engine w)
    (let centralCoord = [80.2707, 13.0827];
         startDate = ''2023-01-01'';
         endDate = ''2024-12-31''
     in
     io_then (print [Str ''\<newline>Configuration:''])
    (io_then (print [Str ''  Location: '', Coords centralCoord])
    (io_then (print [Str ''  Analysis Period: '', Str startDate, Str '' to '', Str endDate])
    (io_then (print [Str ''  Focus Months: May - September (summer)''])
    (io_bind (load_admin_boundaries w) (\<lambda>adminRegions.
     io_bind (get_roi w centralCoord adminRegions) (\<lambda>(analysisBoundary, cityPoint).
     io_bind (get_urban_mask w analysisBoundary startDate endDate) (\<lambda>dynamicUrban.
     io_bind (load_landsat_thermal w analysisBoundary startDate endDate) (\<lambda>landsatThermal.
     io_bind (compute_lst w landsatThermal analysisBoundary) (\<lambda>(medianThermal, meanLST).
     io_bind (calculate_uhi_index medianThermal meanLST) (\<lambda>uhiIndex.
     io_bind (classify_uhi_intensity uhiIndex dynamicUrban) (\<lambda>uhiClasses.
     io_bind (export_to_drive w uhiClasses analysisBoundary default_output_folder) (\<lambda>task.
     io_then (visualize_interactive w medianThermal uhiClasses analysisBoundary centralCoord)
    (io_then (print [Str (CHR 0x0A # replicate 60 CHR ''='')])
    (io_then (print [Str ''Analysis Complete!''])
    (io_then (print [Str (replicate 60 CHR ''='')])
    (io_then (print [Str ''\<newline>Next Steps:''])
    (io_then (print [Str ''  1. Check your Google Drive for the exported GeoTIFF''])
    (io_then (print [Str ''  2. Open uhi_map.html in your browser for visualization''])
    (io_then (print [Str ''  3. Use QGIS or ArcGIS to further analyze the results''])
    (io_then (print [Str ''\<newline>For real-time task status, visit:''])
    (io_then (print [Str ''  https://code.earthengine.google.com/tasks''])
             (print [Str (replicate 60 CHR ''='')])
    ))))))))))))))))))))))))))"

text \<open>
  Running the file as a program: \<^verbatim>\<open>main()\<close> from a fresh process. A run that ends
  normally exits with status 0, \<^verbatim>\<open>SystemExit(n)\<close> with status \<open>n\<close>, any other
  uncaught exception with a non-zero status.
\<close>

definition initial_state :: pystate where
  "initial_state = \<lparr>trace = [], ncalls = 0\<rparr>"

definition script :: "world \<Rightarrow> (exn + unit) \<times> pystate" where
  "script w = main w initial_state"

fun exit_status :: "exn + unit \<Rightarrow> int" where
  "exit_status (Inr _) = 0"
| "exit_status (Inl (SystemExit n)) = n"
| "exit_status (Inl (Exception _)) = 1"
| "exit_status (Inl KeyboardInterrupt) = 130"

section \<open>The reference bands of the specification\<close>

text \<open>
  The five intensity bands as the specification words them: band 1 is \<open>[0, 0.005)\<close>,
  band 2 is \<open>[0.005, 0.010)\<close>, band 3 is \<open>[0.010, 0.015)\<close>, band 4 is
  \<open>[0.015, 0.020)\<close> and band 5 is \<open>[0.020, \<infinity>)\<close>. The reference class of an index
  value is the number of the band it lies in, and 0 when it lies in none.
\<close>

definition uhi_band :: "nat \<Rightarrow> real set" where
  "uhi_band k =
     (if k = 1 then {0 ..< 0.005}
      else if k = 2 then {0.005 ..< 0.010}
      else if k = 3 then {0.010 ..< 0.015}
      else if k = 4 then {0.015 ..< 0.020}
      else if k = 5 then {0.020 ..}
      else {})"

definition reference_class :: "real \<Rightarrow> real" where
  "reference_class x =
     (if x \<in> uhi_band 1 then 1
      else if x \<in> uhi_band 2 then 2
      else if x \<in> uhi_band 3 then 3
      else if x \<in> uhi_band 4 then 4
      else if x \<in> uhi_band 5 then 5
      else 0)"

section \<open>The driver in parts\<close>

text \<open>
  Stretches of \<^verbatim>\<open>main\<close>, named so that runs of the driver can be followed in
  stages: everything before the export step, the same with the export step added,
  both handing on what the later steps receive, and the closing lines printed after the
  visualization step. Lemma \<open>main_split\<close> below shows that \<^verbatim>\<open>main\<close> is their
  composition around the visualization step.
\<close>

definition before_export :: "world \<Rightarrow> (image \<times> image \<times> features \<times> real list) io" where
  "before_export w =
     io_then (print [Str (replicate 60 CHR ''='')])
    (io_then (print [Str ''Urban Heat Island Detection using Landsat 8''])
    (io_then (print [Str ''Google Earth Engine Python API''])
    (io_then (print [Str (replicate 60 CHR ''='')])
    (io_then (initialize_earth_engine w)
    (let centralCoord = [80.2707, 13.0827];
         startDate = ''2023-01-01'';
         endDate = ''2024-12-31''
     in
     io_then (print [Str ''\<newline>Configuration:''])
    (io_then (print [Str ''  Location: '', Coords centralCoord])
    (io_then (print [Str ''  Analysis Period: '', Str startDate, Str '' to '', Str endDate])
    (io_then (print [Str ''  Focus Months: May - September (summer)''])
    (io_bind (load_admin_boundaries w) (\<lambda>adminRegions.
     io_bind (get_roi w centralCoord adminRegions) (\<lambda>(analysisBoundary, cityPoint).
     io_bind (get_urban_mask w analysisBoundary startDate endDate) (\<lambda>dynamicUrban.
     io_bind (load_landsat_thermal w analysisBoundary startDate endDate) (\<lambda>landsatThermal.
     io_bind (compute_lst w landsatThermal analysisBoundary) (\<lambda>(medianThermal, meanLST).
     io_bind (calculate_uhi_index medianThermal meanLST) (\<lambda>uhiIndex.
     io_bind (classify_uhi_intensity uhiIndex dynamicUrban) (\<lambda>uhiClasses.
     io_return (medianThermal, uhiClasses, analysisBoundary, centralCoord)
    ))))))))))))))))"

definition before_visualization :: "world \<Rightarrow> (image \<times> image \<times> features \<times> real list) io" where
  "before_visualization w =
     io_bind (before_export w) (\<lambda>(medianThermal, uhiClasses, analysisBoundary, centralCoord).
     io_bind (export_to_drive w uhiClasses analysisBoundary default_output_folder) (\<lambda>task.
     io_return (medianThermal, uhiClasses, analysisBoundary, centralCoord)))"

definition closing_prints :: "unit io" where
  "closing_prints =
     io_then (print [Str (CHR 0x0A # replicate 60 CHR ''='')])
    (io_then (print [Str ''Analysis Complete!''])
    (io_then (print [Str (replicate 60 CHR ''='')])
    (io_then (print [Str ''\<newline>Next Steps:''])
    (io_then (print [Str ''  1. Check your Google Drive for the exported GeoTIFF''])
    (io_then (print [Str ''  2. Open uhi_map.html in your browser for visualization''])
    (io_then (print [Str ''  3. Use QGIS or ArcGIS to further analyze the results''])
    (io_then (print [Str ''\<newline>For real-time task status, visit:''])
    (io_then (print [Str ''  https://code.earthengine.google.com/tasks''])
             (print [Str (replicate 60 CHR ''='')])))))))))"

section \<open>What a step may emit\<close>

text \<open>
  \<open>emits P m\<close>: from any state, whatever the world answers and however \<open>m\<close> ends,
  \<open>m\<close> only appends events to the trace and every event it appends satisfies \<open>P\<close>.
\<close>

definition emits :: "(event \<Rightarrow> bool) \<Rightarrow> 'a io \<Rightarrow> bool" where
  "emits P m \<longleftrightarrow> (\<forall>s. \<exists>t. trace (snd (m s)) = trace s @ t \<and> list_all P t)"

section \<open>Exceptions of a step\<close>

text \<open>
  \<open>only_Exception_from w n\<close>: from library call number \<open>n\<close> on, whatever the world
  raises is of class \<^verbatim>\<open>Exception\<close>. \<open>mild n m\<close>: started after at least \<open>n\<close> calls,
  \<open>m\<close> raises nothing but exceptions of class \<^verbatim>\<open>Exception\<close>. \<open>ends_with ev m\<close>:
  whenever \<open>m\<close> returns, the last event of the trace is \<open>ev\<close>. \<open>never_returns m\<close>:
  from every state, \<open>m\<close> ends with an exception.
\<close>

definition only_Exception_from :: "world \<Rightarrow> nat \<Rightarrow> bool" where
  "only_Exception_from w n0 \<longleftrightarrow> (\<forall>n e. n0 \<le> n \<longrightarrow> faults w n = Some e \<longrightarrow> (\<exists>msg. e = Exception msg))"

definition mild :: "nat \<Rightarrow> 'a io \<Rightarrow> bool" where
  "mild n0 m \<longleftrightarrow>
     (\<forall>s. n0 \<le> ncalls s \<longrightarrow>
        n0 \<le> ncalls (snd (m s)) \<and>
        (\<forall>e. fst (m s) = Inl e \<longrightarrow> (\<exists>msg. e = Exception msg)))"

definition ends_with :: "event \<Rightarrow> 'a io \<Rightarrow> bool" where
  "ends_with ev m \<longleftrightarrow>
     (\<forall>s x t. m s = (Inr x, t) \<longrightarrow> trace t \<noteq> [] \<and> last (trace t) = ev)"

definition never_returns :: "'a io \<Rightarrow> bool" where
  "never_returns m \<longleftrightarrow> (\<forall>s. \<exists>e. fst (m s) = Inl e)"

section \<open>Reading the export out of a trace\<close>

text \<open>
  The keyword arguments that \<^verbatim>\<open>export_to_drive\<close> hands to \<^verbatim>\<open>toDrive\<close>, and the
  part of a trace that follows the start of the export task.
\<close>

definition toDrive_args :: "image \<Rightarrow> features \<Rightarrow> string \<Rightarrow> arg list" where
  "toDrive_args uhiClasses analysisBoundary output_folder =
     [Kw ''image'' (Img (Image_clip uhiClasses analysisBoundary)),
      Kw ''description'' (Str ''UHI_Classes_Landsat8_Export''),
      Kw ''folder'' (Str output_folder),
      Kw ''fileNamePrefix'' (Str ''uhi_classes''),
      Kw ''region'' (Reg analysisBoundary),
      Kw ''scale'' (Num 100),
      Kw ''crs'' (Str ''EPSG:4326''),
      Kw ''maxPixels'' (Num (10 ^ 13)),
      Kw ''fileFormat'' (Str ''GeoTIFF'')]"

definition after_start :: "event list \<Rightarrow> event list" where
  "after_start tr = tl (dropWhile (\<lambda>e. e \<noteq> Call ''Task.start'' []) tr)"

section \<open>What the library calls receive\<close>

text \<open>
  Reading a trace: the value of a keyword argument of a call, the argument lists of
  the export jobs created, the coordinates and the date arguments a call receives, and
  whether a call receives any of them (\<open>receives_config\<close>).
  \<open>receives_config_unaltered\<close> words the specification's statement that every call
  observes the coordinate and the dates exactly as the driver configures them
  (\<open>[80.2707, 13.0827]\<close>, \<open>2023-01-01\<close>, \<open>2024-12-31\<close>);
  \<open>receives_config_as_coded\<close> is what the script does: the same, except that the
  map constructor receives the coordinate with its two components exchanged.
\<close>

fun kwarg :: "string \<Rightarrow> arg list \<Rightarrow> arg option" where
  "kwarg k [] = None"
| "kwarg k (Kw k' v # rest) = (if k' = k then Some v else kwarg k rest)"
| "kwarg k (a # rest) = kwarg k rest"

fun submitted_jobs :: "event list \<Rightarrow> arg list list" where
  "submitted_jobs [] = []"
| "submitted_jobs (Call name args # es) =
     (if name = ''ee.batch.Export.image.toDrive'' then args # submitted_jobs es
      else submitted_jobs es)"
| "submitted_jobs (Print items # es) = submitted_jobs es"

fun coords_of :: "arg \<Rightarrow> real list list" where
  "coords_of (Coords c) = [c]"
| "coords_of (Kw k a) = coords_of a"
| "coords_of a = []"

definition coords_received :: "event \<Rightarrow> real list list" where
  "coords_received e =
     (case e of Print items \<Rightarrow> [] | Call name args \<Rightarrow> concat (map coords_of args))"

definition dates_received :: "event \<Rightarrow> arg list list" where
  "dates_received e =
     (case e of
        Print items \<Rightarrow> []
      | Call name args \<Rightarrow> if name = ''filterDate'' then [args] else [])"

definition receives_config :: "event \<Rightarrow> bool" where
  "receives_config e \<longleftrightarrow> coords_received e \<noteq> [] \<or> dates_received e \<noteq> []"

definition is_map_constructor :: "event \<Rightarrow> bool" where
  "is_map_constructor e = (case e of Print items \<Rightarrow> False | Call name args \<Rightarrow> name = ''geemap.Map'')"

definition receives_config_unaltered :: "event \<Rightarrow> bool" where
  "receives_config_unaltered e \<longleftrightarrow>
     (\<forall>c\<in>set (coords_received e). c = [80.2707, 13.0827]) \<and>
     (\<forall>d\<in>set (dates_received e). d = [Str ''2023-01-01'', Str ''2024-12-31''])"

definition receives_config_as_coded :: "event \<Rightarrow> bool" where
  "receives_config_as_coded e \<longleftrightarrow>
     (\<forall>c\<in>set (coords_received e).
        c = (if is_map_constructor e then [13.0827, 80.2707] else [80.2707, 13.0827])) \<and>
     (\<forall>d\<in>set (dates_received e). d = [Str ''2023-01-01'', Str ''2024-12-31''])"

section \<open>Sample inputs\<close>

text \<open>Small rasters on which the theorems below are exercised.\<close>

definition demo_index :: image where
  "demo_index =
     \<lparr>band = ''UHI_Index'',
      px = (\<lambda>p. if p = (0, 0) then Some 0.007
                 else if p = (0, 1) then Some (- 0.002)
                 else None),
      props = []\<rparr>"

definition demo_urban :: image where
  "demo_urban =
     \<lparr>band = ''label'',
      px = (\<lambda>p. if p = (1, 1) then Some 0 else Some 1),
      props = []\<rparr>"

definition demo_scene :: image where
  "demo_scene =
     \<lparr>band = ''ST_B10'',
      px = (\<lambda>p. if p = (0, 0) then Some 44000 else None),
      props = [(''TEMPERATURE_MULT_BAND_ST_B10'', 0.00341802),
               (''TEMPERATURE_ADD_BAND_ST_B10'', 149),
               (''CLOUD_COVER'', 3)]\<rparr>"

definition demo_region :: geometry where
  "demo_region = (\<lambda>p. p = (0, 0) \<or> p = (0, 1) \<or> p = (1, 1))"

definition demo_label :: image where
  "demo_label =
     \<lparr>band = ''label'',
      px = (\<lambda>p. if p = (1, 1) then Some 1 else Some 6),
      props = []\<rparr>"

definition first_image :: "image list \<Rightarrow> image" where
  "first_image c =
     (case c of [] \<Rightarrow> \<lparr>band = [], px = (\<lambda>p. None), props = []\<rparr> | x # _ \<Rightarrow> x)"

definition demo_world :: world where
  "demo_world =
     \<lparr>faults = (\<lambda>n. None),
      sv_FeatureCollection = (\<lambda>name. [demo_region]),
      sv_Point = (\<lambda>c p. p = (0, 0)),
      sv_filterBounds_features = (\<lambda>fc pt. fc),
      sv_simplify = (\<lambda>g tolerance. g),
      sv_ImageCollection =
        (\<lambda>name. if name = ''LANDSAT/LC08/C02/T1_L2'' then [demo_scene] else [demo_label]),
      sv_select = (\<lambda>c b. c),
      sv_filterDate = (\<lambda>c start end. c),
      sv_filterBounds = (\<lambda>c region. c),
      sv_calendarRange = (\<lambda>lo hi unit im. True),
      sv_mode = first_image,
      sv_median = first_image,
      sv_task_id = ''TASK0001''\<rparr>"

definition demo_median :: image where
  "demo_median =
     \<lparr>band = ''ST_B10'',
      px = (\<lambda>p. if p = (0, 0) then Some 303 else if p = (0, 1) then Some 297 else None),
      props = []\<rparr>"

definition demo_unauthenticated :: world where
  "demo_unauthenticated =
     demo_world\<lparr>faults := (\<lambda>n. if n = 0 then Some (Exception ''Please authorize access'') else None)\<rparr>"

definition demo_map_failure :: world where
  "demo_map_failure =
     demo_world\<lparr>faults :=
       (\<lambda>n. if n = 0 then Some (Exception ''map server unreachable'') else None)\<rparr>"

definition demo_interrupted :: world where
  "demo_interrupted =
     demo_world\<lparr>faults := (\<lambda>n. if n = 0 then Some KeyboardInterrupt else None)\<rparr>"

definition demo_start_failure :: world where
  "demo_start_failure =
     demo_world\<lparr>faults := (\<lambda>n. if n = 1 then Some (Exception ''quota exceeded'') else None)\<rparr>"

section \<open>Running the output and sequencing primitives\<close>

lemma io_return_run: "io_return x s = (Inr x, s)"
  by (simp add: io_return_def)

lemma raise_run: "raise e s = (Inl e, s)"
  by (simp add: raise_def)

lemma print_run: "print items s = (Inr (), s\<lparr>trace := trace s @ [Print items]\<rparr>)"
  by (simp add: print_def)

lemma call_run:
  "call w name args r s =
     (case faults w (ncalls s) of
        Some e \<Rightarrow> (Inl e, s\<lparr>trace := trace s @ [Call name args], ncalls := ncalls s + 1\<rparr>)
      | None \<Rightarrow> (Inr r, s\<lparr>trace := trace s @ [Call name args], ncalls := ncalls s + 1\<rparr>))"
  by (simp add: call_def Let_def split: option.splits)

lemma io_bind_run:
  "io_bind m f s = (case m s of (Inl e, s') \<Rightarrow> (Inl e, s') | (Inr x, s') \<Rightarrow> f x s')"
  by (simp add: io_bind_def)

lemma io_then_run:
  "io_then m k s = (case m s of (Inl e, s') \<Rightarrow> (Inl e, s') | (Inr x, s') \<Rightarrow> k s')"
  by (simp add: io_then_def io_bind_def)

lemma try_except_Exception_run:
  "try_except_Exception body handler s =
     (case body s of
        (Inl (Exception msg), s') \<Rightarrow> handler (Exception msg) s'
      | r \<Rightarrow> r)"
  by (simp add: try_except_Exception_def)

lemmas io_run = io_return_run raise_run print_run call_run io_bind_run io_then_run
  try_except_Exception_run

section \<open>Pixel values of the image operators\<close>

lemma px_gte: "px (Image_gte im c) p = map_option (\<lambda>v. if v \<ge> c then 1 else 0) (px im p)"
  by (simp add: Image_gte_def)
lemma px_lt: "px (Image_lt im c) p = map_option (\<lambda>v. if v < c then 1 else 0) (px im p)"
  by (simp add: Image_lt_def)
lemma px_eq: "px (Image_eq im c) p = map_option (\<lambda>v. if v = c then 1 else 0) (px im p)"
  by (simp add: Image_eq_def)
lemma px_And: "px (Image_And a b) p = (case (px a p, px b p) of
      (Some x, Some y) \<Rightarrow> Some (if x \<noteq> 0 \<and> y \<noteq> 0 then 1 else 0)
    | _ \<Rightarrow> None)"
  by (simp add: Image_And_def)
lemma px_where: "px (Image_where input test val) p = (case px input p of
      None \<Rightarrow> None
    | Some v \<Rightarrow> (case px test p of
        None \<Rightarrow> Some v
      | Some t \<Rightarrow> if t \<noteq> 0 then Some val else Some v))"
  by (simp add: Image_where_def)
lemma px_updateMask: "px (Image_updateMask im msk) p = (case px msk p of
      None \<Rightarrow> None
    | Some m \<Rightarrow> if m \<noteq> 0 then px im p else None)"
  by (simp add: Image_updateMask_def)
lemma px_constant: "px (Image_constant c) p = Some c"
  by (simp add: Image_constant_def)

lemmas px_simps = px_gte px_lt px_And px_where px_updateMask px_constant

lemma reference_class_cascade:
  "reference_class x =
    (if 0 \<le> x \<and> x < 0.005 then 1 else if 0.005 \<le> x \<and> x < 0.010 then 2
      else if 0.010 \<le> x \<and> x < 0.015 then 3 else if 0.015 \<le> x \<and> x < 0.020 then 4
      else if 0.020 \<le> x then 5 else 0)"
  by (simp add: reference_class_def uhi_band_def)

lemma classify_run:
  "\<exists>c s'. classify_uhi_intensity u d s = (Inr c, s') \<and>
     (\<forall>p. px c p = (case px d p of None \<Rightarrow> None | Some m \<Rightarrow>
              if m = 0 then None
              else (case px u p of None \<Rightarrow> Some 0 | Some x \<Rightarrow> Some (reference_class x))))"
  unfolding reference_class_cascade
  by (simp add: classify_uhi_intensity_def Let_def io_run
      px_simps split: option.splits)

lemma band_iff_class:
  "k \<in> {1..5} \<Longrightarrow> reference_class x = real k \<longleftrightarrow> x \<in> uhi_band k"
proof -
  assume "k \<in> {1..5}"
  then consider "k = 1" | "k = 2" | "k = 3" | "k = 4" | "k = 5"
    by (auto simp: numeral_eq_Suc le_Suc_eq)
  then show ?thesis
    by cases (simp_all add: reference_class_def uhi_band_def)
qed

lemma one_band: "0 \<le> x \<Longrightarrow> \<exists>!k. k \<in> {1..5} \<and> x \<in> uhi_band k"
proof -
  assume x: "0 \<le> x"
  have r: "reference_class x \<in> {1, 2, 3, 4, 5}"
    using x by (simp add: reference_class_def uhi_band_def)
  then obtain k where k: "k \<in> {1..5}" "reference_class x = real k"
    by (auto intro: that[of 1] that[of 2] that[of 3] that[of 4] that[of 5])
  show ?thesis
  proof (rule ex1I[of _ k])
    show "k \<in> {1..5} \<and> x \<in> uhi_band k" using k band_iff_class by blast
  next
    fix j assume "j \<in> {1..5} \<and> x \<in> uhi_band j"
    then have "reference_class x = real j" using band_iff_class by blast
    with k show "j = k" by simp
  qed
qed

lemma no_band: "x < 0 \<Longrightarrow> k \<in> {1..5} \<Longrightarrow> x \<notin> uhi_band k"
  by (simp add: uhi_band_def)

section \<open>The classifier\<close>

text \<open>
  Claim C1. On a pixel that the urban mask selects and where the index holds the value
  \<open>x\<close>, \<^verbatim>\<open>classify_uhi_intensity\<close> returns the reference class of \<open>x\<close>: class
  \<open>k\<close> is assigned exactly when \<open>x\<close> lies in band \<open>k\<close>; every \<open>x \<ge> 0\<close> lies in
  exactly one of the five bands; every \<open>x < 0\<close> lies in none and the pixel keeps the
  initial constant 0.
\<close>

theorem classifier_equals_reference_bands:
  assumes "px uhiIndex p = Some x" and "px dynamicUrban p = Some m" and "m \<noteq> 0"
  shows "\<exists>uhiClasses s'.
           classify_uhi_intensity uhiIndex dynamicUrban s = (Inr uhiClasses, s') \<and>
           px uhiClasses p = Some (reference_class x) \<and>
           (\<forall>k\<in>{1..5}. px uhiClasses p = Some (real k) \<longleftrightarrow> x \<in> uhi_band k) \<and>
           (0 \<le> x \<longrightarrow> (\<exists>!k. k \<in> {1..5} \<and> x \<in> uhi_band k)) \<and>
           (x < 0 \<longrightarrow> px uhiClasses p = Some 0 \<and> (\<forall>k\<in>{1..5}. x \<notin> uhi_band k))"
proof -
  from classify_run[of uhiIndex dynamicUrban s]
  obtain c s' where run: "classify_uhi_intensity uhiIndex dynamicUrban s = (Inr c, s')"
    and every: "\<forall>p. px c p = (case px dynamicUrban p of None \<Rightarrow> None | Some m \<Rightarrow>
              if m = 0 then None
              else (case px uhiIndex p of None \<Rightarrow> Some 0
                    | Some x \<Rightarrow> Some (reference_class x)))"
    by blast
  have c: "px c p = Some (reference_class x)"
    using every[rule_format, of p] assms by simp
  show ?thesis
  proof (intro exI conjI)
    show "classify_uhi_intensity uhiIndex dynamicUrban s = (Inr c, s')"
      by (rule run)
    show "px c p = Some (reference_class x)"
      by (rule c)
    show "\<forall>k\<in>{1..5}. px c p = Some (real k) \<longleftrightarrow> x \<in> uhi_band k"
    proof
      fix k :: nat assume "k \<in> {1..5}"
      from band_iff_class[OF this, of x] c
      show "px c p = Some (real k) \<longleftrightarrow> x \<in> uhi_band k" by simp
    qed
    show "0 \<le> x \<longrightarrow> (\<exists>!k. k \<in> {1..5} \<and> x \<in> uhi_band k)"
      by (rule impI) (rule one_band)
    show "x < 0 \<longrightarrow> px c p = Some 0 \<and> (\<forall>k\<in>{1..5}. x \<notin> uhi_band k)"
    proof (intro impI conjI ballI)
      assume "x < 0"
      then have "reference_class x = 0"
        by (simp add: reference_class_cascade)
      with c show "px c p = Some 0" by simp
    next
      fix k :: nat assume "x < 0" "k \<in> {1..5}"
      then show "x \<notin> uhi_band k" by (rule no_band)
    qed
  qed
qed

theorem classifier_equals_reference_bands_witness:
  "\<exists>uhiClasses s'.
     classify_uhi_intensity demo_index demo_urban initial_state = (Inr uhiClasses, s') \<and>
     px uhiClasses (0, 0) = Some 2"
proof -
  have h1: "px demo_index (0, 0) = Some 0.007" by (simp add: demo_index_def)
  have h2: "px demo_urban (0, 0) = Some 1" by (simp add: demo_urban_def)
  have r: "reference_class 0.007 = 2" by (simp add: reference_class_def uhi_band_def)
  from classifier_equals_reference_bands[OF h1 h2, of initial_state] r
  show ?thesis by auto
qed

section \<open>Thermal scaling\<close>

lemma px_multiply: "px (Image_multiply im n) p = map_option (\<lambda>v. v * n) (px im p)"
  by (simp add: Image_multiply_def)
lemma px_add: "px (Image_add im n) p = map_option (\<lambda>v. v + n) (px im p)"
  by (simp add: Image_add_def)
lemma px_copyProperties: "px (Image_copyProperties dest source names) p = px dest p"
  by (simp add: Image_copyProperties_def)
lemma px_rename: "px (Image_rename im name) p = px im p"
  by (simp add: Image_rename_def)
lemma px_expression: "px (Image_expression im e env) p = eval_expr env p e"
  by (simp add: Image_expression_def)
lemma px_clip:
  "px (Image_clip im region) p = (if (\<exists>g \<in> set region. g p) then px im p else None)"
  by (simp add: Image_clip_def)

lemma apply_thermal_scaling_px:
  assumes "Image_get img ''TEMPERATURE_MULT_BAND_ST_B10'' = Some scale"
    and "Image_get img ''TEMPERATURE_ADD_BAND_ST_B10'' = Some offset"
  shows "\<exists>out. apply_thermal_scaling img = Some out \<and>
           (\<forall>p. px out p = map_option (\<lambda>v. v * scale + offset) (px img p))"
  using assms
  by (simp add: apply_thermal_scaling_def Let_def px_copyProperties px_add px_multiply
      option.map_comp comp_def)

lemma apply_thermal_scaling_None:
  "apply_thermal_scaling img = None \<longleftrightarrow>
     Image_get img ''TEMPERATURE_MULT_BAND_ST_B10'' = None \<or>
     Image_get img ''TEMPERATURE_ADD_BAND_ST_B10'' = None"
  by (simp add: apply_thermal_scaling_def Let_def split: option.splits)

lemma map_collection_scaling:
  "\<forall>im\<in>set scenes. Image_get im ''TEMPERATURE_MULT_BAND_ST_B10'' \<noteq> None \<and>
                    Image_get im ''TEMPERATURE_ADD_BAND_ST_B10'' \<noteq> None \<Longrightarrow>
   \<exists>outs. map_collection apply_thermal_scaling scenes = Some outs \<and>
      length outs = length scenes \<and>
      (\<forall>i<length scenes. apply_thermal_scaling (scenes ! i) = Some (outs ! i))"
proof (induction scenes)
  case Nil
  then show ?case by simp
next
  case (Cons a scenes)
  then obtain outs where outs: "map_collection apply_thermal_scaling scenes = Some outs"
    "length outs = length scenes"
    "\<forall>i<length scenes. apply_thermal_scaling (scenes ! i) = Some (outs ! i)"
    by auto
  from Cons.prems obtain y where y: "apply_thermal_scaling a = Some y"
    using apply_thermal_scaling_None[of a] by (cases "apply_thermal_scaling a") auto
  have "\<forall>i<length (a # scenes). apply_thermal_scaling ((a # scenes) ! i) = Some ((y # outs) ! i)"
    using y outs(3) by (auto simp: nth_Cons split: nat.splits)
  with y outs show ?case by simp
qed

text \<open>
  Claim C2. For every scene of the collection that \<^verbatim>\<open>apply_thermal_scaling\<close> is
  mapped over, with the scale and offset read from that scene's own properties, a
  pixel holding the raw value \<open>v\<close> holds \<open>v * scale + offset\<close> in the scaled scene.
\<close>

theorem thermal_scaling_formula:
  assumes "\<forall>im\<in>set scenes. Image_get im ''TEMPERATURE_MULT_BAND_ST_B10'' \<noteq> None \<and>
                    Image_get im ''TEMPERATURE_ADD_BAND_ST_B10'' \<noteq> None"
  shows "\<exists>outs. map_collection apply_thermal_scaling scenes = Some outs \<and>
      length outs = length scenes \<and>
      (\<forall>i<length scenes. \<forall>scale offset p v.
          Image_get (scenes ! i) ''TEMPERATURE_MULT_BAND_ST_B10'' = Some scale \<longrightarrow>
          Image_get (scenes ! i) ''TEMPERATURE_ADD_BAND_ST_B10'' = Some offset \<longrightarrow>
          px (scenes ! i) p = Some v \<longrightarrow>
          px (outs ! i) p = Some (v * scale + offset))"
proof -
  from map_collection_scaling[OF assms]
  obtain outs where outs: "map_collection apply_thermal_scaling scenes = Some outs"
    "length outs = length scenes"
    "\<forall>i<length scenes. apply_thermal_scaling (scenes ! i) = Some (outs ! i)"
    by blast
  have "px (outs ! i) p = Some (v * scale + offset)"
    if "i < length scenes"
      and "Image_get (scenes ! i) ''TEMPERATURE_MULT_BAND_ST_B10'' = Some scale"
      and "Image_get (scenes ! i) ''TEMPERATURE_ADD_BAND_ST_B10'' = Some offset"
      and "px (scenes ! i) p = Some v"
    for i scale offset p v
  proof -
    from apply_thermal_scaling_px[OF that(2) that(3)]
    obtain out where out: "apply_thermal_scaling (scenes ! i) = Some out"
      "\<forall>p. px out p = map_option (\<lambda>v. v * scale + offset) (px (scenes ! i) p)"
      by blast
    from out(1) outs(3) that(1) have "out = outs ! i" by simp
    with out(2)[rule_format, of p] that(4) show ?thesis by simp
  qed
  with outs(1,2) show ?thesis by blast
qed

theorem thermal_scaling_formula_witness:
  "\<exists>outs. map_collection apply_thermal_scaling [demo_scene] = Some outs \<and>
      length outs = 1 \<and>
      px (outs ! 0) (0, 0) = Some (44000 * 0.00341802 + 149)"
proof -
  have h: "\<forall>im\<in>set [demo_scene]. Image_get im ''TEMPERATURE_MULT_BAND_ST_B10'' \<noteq> None \<and>
                    Image_get im ''TEMPERATURE_ADD_BAND_ST_B10'' \<noteq> None"
    by (simp add: demo_scene_def Image_get_def)
  have p: "Image_get ([demo_scene] ! 0) ''TEMPERATURE_MULT_BAND_ST_B10'' = Some 0.00341802"
    "Image_get ([demo_scene] ! 0) ''TEMPERATURE_ADD_BAND_ST_B10'' = Some 149"
    "px ([demo_scene] ! 0) (0, 0) = Some 44000"
    by (simp_all add: demo_scene_def Image_get_def)
  from thermal_scaling_formula[OF h] obtain outs where
    o: "map_collection apply_thermal_scaling [demo_scene] = Some outs"
      "length outs = length [demo_scene]"
      "\<forall>i<length [demo_scene]. \<forall>scale offset p v.
          Image_get ([demo_scene] ! i) ''TEMPERATURE_MULT_BAND_ST_B10'' = Some scale \<longrightarrow>
          Image_get ([demo_scene] ! i) ''TEMPERATURE_ADD_BAND_ST_B10'' = Some offset \<longrightarrow>
          px ([demo_scene] ! i) p = Some v \<longrightarrow>
          px (outs ! i) p = Some (v * scale + offset)"
    by blast
  from o(3) p have "px (outs ! 0) (0, 0) = Some (44000 * 0.00341802 + 149)"
    by (metis length_Cons zero_less_Suc)
  with o(1,2) show ?thesis by simp
qed

section \<open>The urban mask\<close>

text \<open>
  Claim C4. The raster returned by \<^verbatim>\<open>classify_uhi_intensity\<close> is masked wherever the
  urban mask is zero or has no value, so a pixel carries a class only where the urban
  mask holds a non-zero value; wherever the urban mask holds a non-zero value the pixel
  keeps the class value of its index (the initial 0 where the index is negative or
  masked); with the mask \<^verbatim>\<open>label.eq(6)\<close> every pixel whose label is not 6 (Built Area)
  is masked and every pixel whose label is 6 keeps its class value.
\<close>

theorem classes_masked_to_urban:
  "\<exists>uhiClasses s'.
     classify_uhi_intensity uhiIndex dynamicUrban s = (Inr uhiClasses, s') \<and>
     (\<forall>p. px dynamicUrban p = Some 0 \<or> px dynamicUrban p = None \<longrightarrow> px uhiClasses p = None) \<and>
     (\<forall>p v. px uhiClasses p = Some v \<longrightarrow> (\<exists>m. px dynamicUrban p = Some m \<and> m \<noteq> 0)) \<and>
     (\<forall>p m. px dynamicUrban p = Some m \<longrightarrow> m \<noteq> 0 \<longrightarrow>
        px uhiClasses p =
          Some (case px uhiIndex p of None \<Rightarrow> 0 | Some x \<Rightarrow> reference_class x)) \<and>
     (\<forall>label p l. dynamicUrban = Image_eq label 6 \<longrightarrow> px label p = Some l \<longrightarrow> l \<noteq> 6 \<longrightarrow>
        px uhiClasses p = None) \<and>
     (\<forall>label p. dynamicUrban = Image_eq label 6 \<longrightarrow> px label p = Some 6 \<longrightarrow>
        px uhiClasses p =
          Some (case px uhiIndex p of None \<Rightarrow> 0 | Some x \<Rightarrow> reference_class x))"
proof -
  from classify_run[of uhiIndex dynamicUrban s]
  obtain c s' where run: "classify_uhi_intensity uhiIndex dynamicUrban s = (Inr c, s')"
    and every: "\<forall>p. px c p = (case px dynamicUrban p of None \<Rightarrow> None | Some m \<Rightarrow>
              if m = 0 then None
              else (case px uhiIndex p of None \<Rightarrow> Some 0
                    | Some x \<Rightarrow> Some (reference_class x)))"
    by blast
  have a: "px c p = None" if "px dynamicUrban p = Some 0 \<or> px dynamicUrban p = None" for p
    using every[rule_format, of p] that by auto
  have b: "\<exists>m. px dynamicUrban p = Some m \<and> m \<noteq> 0" if "px c p = Some v" for p v
    using every[rule_format, of p] that by (cases "px dynamicUrban p") (auto split: if_splits)
  have k: "px c p = Some (case px uhiIndex p of None \<Rightarrow> 0 | Some x \<Rightarrow> reference_class x)"
    if "px dynamicUrban p = Some m" "m \<noteq> 0" for p m
    using every[rule_format, of p] that by (cases "px uhiIndex p") simp_all
  have d: "px c p = None"
    if "dynamicUrban = Image_eq label 6" "px label p = Some l" "l \<noteq> 6" for label p l
  proof -
    from that have "px dynamicUrban p = Some 0" by (simp add: px_eq)
    then show ?thesis using a by blast
  qed
  have e: "px c p = Some (case px uhiIndex p of None \<Rightarrow> 0 | Some x \<Rightarrow> reference_class x)"
    if "dynamicUrban = Image_eq label 6" "px label p = Some 6" for label p
  proof -
    from that have "px dynamicUrban p = Some 1" by (simp add: px_eq)
    then show ?thesis using k[of p 1] by simp
  qed
  from run a b k d e show ?thesis by blast
qed

theorem classes_masked_to_urban_witness:
  "\<exists>uhiClasses s'.
     classify_uhi_intensity demo_index (Image_eq demo_label 6) initial_state
       = (Inr uhiClasses, s') \<and>
     px (Image_eq demo_label 6) (1, 1) = Some 0 \<and>
     px uhiClasses (1, 1) = None \<and>
     px (Image_eq demo_label 6) (0, 0) = Some 1 \<and>
     px uhiClasses (0, 0) = Some 2 \<and>
     px uhiClasses (0, 1) = Some 0"
proof -
  from classes_masked_to_urban[of demo_index "Image_eq demo_label 6" initial_state]
  obtain c s' where
    r: "classify_uhi_intensity demo_index (Image_eq demo_label 6) initial_state = (Inr c, s')"
      "\<forall>label p l. Image_eq demo_label 6 = Image_eq label 6 \<longrightarrow> px label p = Some l \<longrightarrow>
          l \<noteq> 6 \<longrightarrow> px c p = None"
      "\<forall>label p. Image_eq demo_label 6 = Image_eq label 6 \<longrightarrow> px label p = Some 6 \<longrightarrow>
        px c p = Some (case px demo_index p of None \<Rightarrow> 0 | Some x \<Rightarrow> reference_class x)"
    by blast
  have l: "px demo_label (1, 1) = Some 1" "(1::real) \<noteq> 6" by (simp_all add: demo_label_def)
  have l0: "px demo_label (0, 0) = Some 6" "px demo_label (0, 1) = Some 6"
    by (simp_all add: demo_label_def)
  from r(2)[rule_format, OF refl l] have n: "px c (1, 1) = None" .
  from r(3)[rule_format, OF refl l0(1)] have v0: "px c (0, 0) = Some 2"
    by (simp add: demo_index_def reference_class_cascade)
  from r(3)[rule_format, OF refl l0(2)] have v1: "px c (0, 1) = Some 0"
    by (simp add: demo_index_def reference_class_cascade)
  have m: "px (Image_eq demo_label 6) (1, 1) = Some 0"
    "px (Image_eq demo_label 6) (0, 0) = Some 1"
    by (simp_all add: px_eq demo_label_def)
  from r(1) n v0 v1 m show ?thesis by blast
qed

section \<open>Sequencing laws and the parts of the driver\<close>

lemma io_bind_return: "io_bind (io_return x) f = f x"
  by (simp add: io_bind_def io_return_def)

lemma io_bind_assoc: "io_bind (io_bind m f) g = io_bind m (\<lambda>x. io_bind (f x) g)"
  by (auto simp: io_bind_def fun_eq_iff split: prod.splits sum.splits)

lemma main_split:
  "main w = io_bind (before_visualization w) (\<lambda>(medianThermal, uhiClasses, analysisBoundary, centralCoord).
      io_then (visualize_interactive w medianThermal uhiClasses analysisBoundary centralCoord)
        closing_prints)"
  by (simp add: main_def before_visualization_def before_export_def closing_prints_def io_then_def
      io_bind_assoc io_bind_return Let_def split_def)

section \<open>Events emitted by the steps\<close>

lemma emits_return: "emits P (io_return x)"
  by (simp add: emits_def io_return_def)

lemma emits_raise: "emits P (raise e)"
  by (simp add: emits_def raise_def)

lemma emits_print: "P (Print items) \<Longrightarrow> emits P (print items)"
  by (simp add: emits_def print_def)

lemma emits_call: "P (Call name args) \<Longrightarrow> emits P (call w name args r)"
  by (simp add: emits_def call_def Let_def split: option.splits)

lemma emits_bind:
  assumes "emits P m" and "\<And>x. emits P (f x)"
  shows "emits P (io_bind m f)"
  unfolding emits_def
proof
  fix s
  from assms(1) obtain t where t: "trace (snd (m s)) = trace s @ t" "list_all P t"
    unfolding emits_def by blast
  show "\<exists>t. trace (snd (io_bind m f s)) = trace s @ t \<and> list_all P t"
  proof (cases "m s")
    case (Pair r s')
    show ?thesis
    proof (cases r)
      case (Inl e)
      with Pair t show ?thesis by (auto simp: io_bind_def)
    next
      case (Inr x)
      from assms(2)[of x] obtain t' where
        t': "trace (snd (f x s')) = trace s' @ t'" "list_all P t'"
        unfolding emits_def by blast
      with Pair Inr t have "trace (snd (io_bind m f s)) = trace s @ (t @ t')" "list_all P (t @ t')"
        by (auto simp: io_bind_def)
      then show ?thesis by blast
    qed
  qed
qed

lemma emits_then: "emits P m \<Longrightarrow> emits P k \<Longrightarrow> emits P (io_then m k)"
  by (simp add: io_then_def emits_bind)

lemma emits_try:
  assumes "emits P body" and "\<And>e. emits P (handler e)"
  shows "emits P (try_except_Exception body handler)"
  unfolding emits_def
proof
  fix s
  from assms(1) obtain t where t: "trace (snd (body s)) = trace s @ t" "list_all P t"
    unfolding emits_def by blast
  show "\<exists>t. trace (snd (try_except_Exception body handler s)) = trace s @ t \<and> list_all P t"
  proof (cases "body s")
    case (Pair r s')
    show ?thesis
    proof (cases "\<exists>msg. r = Inl (Exception msg)")
      case True
      then obtain msg where r: "r = Inl (Exception msg)" by blast
      from assms(2)[of "Exception msg"] obtain t' where
        t': "trace (snd (handler (Exception msg) s')) = trace s' @ t'" "list_all P t'"
        unfolding emits_def by blast
      with Pair r t have "trace (snd (try_except_Exception body handler s)) = trace s @ (t @ t')"
        "list_all P (t @ t')"
        by (auto simp: try_except_Exception_def)
      then show ?thesis by blast
    next
      case False
      with Pair have "try_except_Exception body handler s = body s"
        by (auto simp: try_except_Exception_def split: sum.splits exn.splits)
      with t show ?thesis by auto
    qed
  qed
qed

lemma emits_case_option:
  "emits P a \<Longrightarrow> (\<And>v. emits P (b v)) \<Longrightarrow> emits P (case x of None \<Rightarrow> a | Some v \<Rightarrow> b v)"
  by (cases x) simp_all

lemma emits_case_prod: "(\<And>a b. emits P (f a b)) \<Longrightarrow> emits P (case x of (a, b) \<Rightarrow> f a b)"
  by (cases x) simp

lemma emits_if: "emits P a \<Longrightarrow> emits P b \<Longrightarrow> emits P (if c then a else b)"
  by simp

lemmas emits_rules = emits_return emits_raise emits_bind emits_then emits_try
  emits_case_option emits_case_prod emits_if

lemmas step_defs = initialize_earth_engine_def load_admin_boundaries_def
  get_roi_def get_urban_mask_def load_landsat_thermal_def compute_lst_def
  reduceRegion_positional_def
  calculate_uhi_index_def classify_uhi_intensity_def export_to_drive_def
  visualize_interactive_def getInfo_def index_def

lemma io_bind_print:
  "io_bind (print items) f s = f () (s\<lparr>trace := trace s @ [Print items]\<rparr>)"
  by (simp add: io_bind_def print_def)

lemma io_bind_raise: "io_bind (raise e) f s = (Inl e, s)"
  by (simp add: io_bind_def raise_def)

lemma io_bind_call:
  "io_bind (call w name args r) f s =
     (case faults w (ncalls s) of
        Some e \<Rightarrow> (Inl e, s\<lparr>trace := trace s @ [Call name args], ncalls := ncalls s + 1\<rparr>)
      | None \<Rightarrow> f r (s\<lparr>trace := trace s @ [Call name args], ncalls := ncalls s + 1\<rparr>))"
  by (simp add: io_bind_def call_def Let_def split: option.splits)

lemma io_bind_try:
  "io_bind (try_except_Exception body handler) f s =
     (case body s of
        (Inl (Exception msg), s') \<Rightarrow> io_bind (handler (Exception msg)) f s'
      | (Inl e, s') \<Rightarrow> (Inl e, s')
      | (Inr x, s') \<Rightarrow> f x s')"
  by (simp add: io_bind_def try_except_Exception_def split: prod.splits sum.splits exn.splits)

lemmas io_step = io_then_def io_bind_assoc io_bind_return io_bind_print io_bind_raise
  io_bind_call io_bind_try raise_run call_run io_return_run print_run try_except_Exception_run

lemma bind_extends:
  assumes "emits P (io_bind m f)" and "\<And>rest. trace s @ rest = g rest"
  shows "\<exists>rest. trace (snd (io_bind m f s)) = g rest"
  using assms unfolding emits_def by metis

section \<open>Initialization\<close>

text \<open>
  Claim C5. If \<^verbatim>\<open>ee.Initialize()\<close>, the first library call of the run, raises an
  exception of class \<^verbatim>\<open>Exception\<close>, the script prints the failure, the error and the
  guidance to authenticate, and ends with \<^verbatim>\<open>SystemExit(1)\<close>, exit status 1, having made
  no other library call. If the call returns, the success line is printed and the run
  goes on: the configuration is printed and the first pipeline step issues its request.
\<close>

theorem initialization_failure_is_fatal:
  "(\<forall>msg. faults w 0 = Some (Exception msg) \<longrightarrow>
      script w =
        (Inl (SystemExit 1),
         \<lparr>trace =
            [Print [Str (replicate 60 CHR ''='')],
             Print [Str ''Urban Heat Island Detection using Landsat 8''],
             Print [Str ''Google Earth Engine Python API''],
             Print [Str (replicate 60 CHR ''='')],
             Call ''ee.Initialize'' [],
             Print [Str ''Earth Engine initialization failed''],
             Print [Str ''  Error: '', Err (Exception msg)],
             Print [Str ''\<newline>Please authenticate with Google Cloud:''],
             Print [Str ''  Run: earthengine authenticate'']],
          ncalls = 1\<rparr>) \<and>
      exit_status (fst (script w)) = 1)
   \<and>
   (faults w 0 = None \<longrightarrow>
      (\<exists>rest. trace (snd (script w)) =
         [Print [Str (replicate 60 CHR ''='')],
          Print [Str ''Urban Heat Island Detection using Landsat 8''],
          Print [Str ''Google Earth Engine Python API''],
          Print [Str (replicate 60 CHR ''='')],
          Call ''ee.Initialize'' [],
          Print [Str ''Earth Engine initialized successfully''],
          Print [Str ''\<newline>Configuration:''],
          Print [Str ''  Location: '', Coords [80.2707, 13.0827]],
          Print [Str ''  Analysis Period: '', Str ''2023-01-01'', Str '' to '', Str ''2024-12-31''],
          Print [Str ''  Focus Months: May - September (summer)''],
          Print [Str ''\<newline>Loading FAO Admin Boundaries...''],
          Call ''ee.FeatureCollection'' [Str ''FAO/GAUL/2015/level1'']] @ rest))"
proof (intro conjI allI impI)
  fix msg assume f: "faults w 0 = Some (Exception msg)"
  then show "script w =
        (Inl (SystemExit 1),
         \<lparr>trace =
            [Print [Str (replicate 60 CHR ''='')],
             Print [Str ''Urban Heat Island Detection using Landsat 8''],
             Print [Str ''Google Earth Engine Python API''],
             Print [Str (replicate 60 CHR ''='')],
             Call ''ee.Initialize'' [],
             Print [Str ''Earth Engine initialization failed''],
             Print [Str ''  Error: '', Err (Exception msg)],
             Print [Str ''\<newline>Please authenticate with Google Cloud:''],
             Print [Str ''  Run: earthengine authenticate'']],
          ncalls = 1\<rparr>)"
    by (simp add: script_def main_def initialize_earth_engine_def initial_state_def io_step)
  then show "exit_status (fst (script w)) = 1" by simp
next
  assume f: "faults w 0 = None"
  show "\<exists>rest. trace (snd (script w)) =
         [Print [Str (replicate 60 CHR ''='')],
          Print [Str ''Urban Heat Island Detection using Landsat 8''],
          Print [Str ''Google Earth Engine Python API''],
          Print [Str (replicate 60 CHR ''='')],
          Call ''ee.Initialize'' [],
          Print [Str ''Earth Engine initialized successfully''],
          Print [Str ''\<newline>Configuration:''],
          Print [Str ''  Location: '', Coords [80.2707, 13.0827]],
          Print [Str ''  Analysis Period: '', Str ''2023-01-01'', Str '' to '', Str ''2024-12-31''],
          Print [Str ''  Focus Months: May - September (summer)''],
          Print [Str ''\<newline>Loading FAO Admin Boundaries...''],
          Call ''ee.FeatureCollection'' [Str ''FAO/GAUL/2015/level1'']] @ rest"
  proof (cases "faults w 1")
    case (Some e)
    with f show ?thesis
      by (simp add: script_def main_def initialize_earth_engine_def load_admin_boundaries_def
          initial_state_def io_step Let_def)
  next
    case None
    with f show ?thesis
      apply (simp add: script_def main_def initialize_earth_engine_def load_admin_boundaries_def
          initial_state_def io_step Let_def)
      apply (rule bind_extends[where P = "\<lambda>e. True"])
       apply (unfold step_defs Let_def)
       apply (intro emits_rules emits_print emits_call)
                          apply simp_all
      done
  qed
qed

theorem initialization_failure_is_fatal_witness:
  "fst (script demo_unauthenticated) = Inl (SystemExit 1) \<and>
   exit_status (fst (script demo_unauthenticated)) = 1 \<and>
   ncalls (snd (script demo_unauthenticated)) = 1 \<and>
   Call ''ee.FeatureCollection'' [Str ''FAO/GAUL/2015/level1'']
     \<in> set (trace (snd (script demo_world)))"
proof -
  have bad: "faults demo_unauthenticated 0 = Some (Exception ''Please authorize access'')"
    by (simp add: demo_unauthenticated_def)
  have good: "faults demo_world 0 = None"
    by (simp add: demo_world_def)
  from initialization_failure_is_fatal[of demo_unauthenticated] bad
  have a: "fst (script demo_unauthenticated) = Inl (SystemExit 1) \<and>
   exit_status (fst (script demo_unauthenticated)) = 1 \<and>
   ncalls (snd (script demo_unauthenticated)) = 1"
    by simp
  from initialization_failure_is_fatal[of demo_world] good
  have "Call ''ee.FeatureCollection'' [Str ''FAO/GAUL/2015/level1'']
     \<in> set (trace (snd (script demo_world)))"
    by auto
  with a show ?thesis by simp
qed

section \<open>The step that fetches the regional mean\<close>

text \<open>
  \<^verbatim>\<open>compute_lst\<close> never returns, so nothing that follows it in the driver runs. A run
  in which no library call up to \<^verbatim>\<open>reduceRegion\<close> raises is followed to its end.
\<close>

lemma rule_line_not_newline: "replicate 60 CHR ''='' \<noteq> CHR 0x0A # xs"
  using replicate_Suc[of 59 "CHR ''=''"] by simp

lemma never_returns_raise: "never_returns (raise e)"
  by (simp add: never_returns_def raise_def)

lemma never_returns_first: "never_returns m \<Longrightarrow> never_returns (io_bind m f)"
  unfolding never_returns_def io_bind_def
proof
  fix s assume a: "\<forall>s. \<exists>e. fst (m s) = Inl e"
  then obtain e where "fst (m s) = Inl e" by blast
  then show "\<exists>e. fst (case m s of (Inl e, s') \<Rightarrow> (Inl e, s') | (Inr x, s') \<Rightarrow> f x s') = Inl e"
    by (cases "m s") auto
qed

lemma never_returns_second: "(\<And>x. never_returns (f x)) \<Longrightarrow> never_returns (io_bind m f)"
  unfolding never_returns_def io_bind_def
  by (auto split: prod.splits sum.splits)

lemma never_returns_case_prod:
  "(\<And>a b. never_returns (f a b)) \<Longrightarrow> never_returns (case x of (a, b) \<Rightarrow> f a b)"
  by (cases x) simp

lemma reduceRegion_positional_never_returns: "never_returns (reduceRegion_positional w args)"
  unfolding reduceRegion_positional_def
  by (intro never_returns_second never_returns_raise)

lemma compute_lst_never_returns: "never_returns (compute_lst w landsatThermal analysisBoundary)"
  unfolding compute_lst_def io_then_def
  apply (rule never_returns_second)
  apply (rule never_returns_second)
  apply (rule never_returns_second)
  apply (rule never_returns_first)
  apply (rule reduceRegion_positional_never_returns)
  done

lemma never_returns_after_compute_lst:
  "never_returns (io_bind (compute_lst w landsatThermal analysisBoundary) f)"
  by (rule never_returns_first) (rule compute_lst_never_returns)

lemma main_never_returns: "never_returns (main w)"
  unfolding main_def Let_def io_then_def
  by (intro never_returns_after_compute_lst never_returns_second never_returns_case_prod)

lemma emits_stuck: "emits P m \<Longrightarrow> never_returns m \<Longrightarrow> emits P (io_bind m f)"
  unfolding emits_def never_returns_def
proof
  fix s
  assume a: "\<forall>s. \<exists>t. trace (snd (m s)) = trace s @ t \<and> list_all P t"
    and b: "\<forall>s. \<exists>e. fst (m s) = Inl e"
  from b obtain e where "fst (m s) = Inl e" by blast
  then obtain s' where ms: "m s = (Inl e, s')" by (cases "m s") auto
  then have "io_bind m f s = (Inl e, s')" by (simp add: io_bind_def)
  with a[rule_format, of s] ms
  show "\<exists>t. trace (snd (io_bind m f s)) = trace s @ t \<and> list_all P t"
    by simp
qed

lemma compute_lst_emits:
  "emits (\<lambda>e. \<forall>items. e = Print items \<longrightarrow>
             items \<noteq> [Str ''\<newline>Calculating UHI Index...''])
     (compute_lst w landsatThermal analysisBoundary)"
  unfolding compute_lst_def reduceRegion_positional_def getInfo_def
  by (intro emits_rules emits_print emits_call) simp_all

lemma emits_after_compute_lst:
  "emits P (compute_lst w landsatThermal analysisBoundary) \<Longrightarrow>
   emits P (io_bind (compute_lst w landsatThermal analysisBoundary) f)"
  by (rule emits_stuck) (simp_all add: compute_lst_never_returns)

lemma main_emits_no_index_line:
  "emits (\<lambda>e. \<forall>items. e = Print items \<longrightarrow>
             items \<noteq> [Str ''\<newline>Calculating UHI Index...''])
     (main w)"
  unfolding main_def Let_def initialize_earth_engine_def load_admin_boundaries_def
    get_roi_def get_urban_mask_def load_landsat_thermal_def getInfo_def
  by (intro emits_after_compute_lst compute_lst_emits emits_rules emits_print emits_call)
     (simp_all add: rule_line_not_newline)

lemma fault_free_run:
  assumes "\<forall>n<24. faults w n = None"
  shows "\<exists>boundary count.
    script w =
     (Inl (Exception ''TypeError''),
      \<lparr>trace =
         [Print [Str (replicate 60 CHR ''='')],
          Print [Str ''Urban Heat Island Detection using Landsat 8''],
          Print [Str ''Google Earth Engine Python API''],
          Print [Str (replicate 60 CHR ''='')],
          Call ''ee.Initialize'' [],
          Print [Str ''Earth Engine initialized successfully''],
          Print [Str ''\<newline>Configuration:''],
          Print [Str ''  Location: '', Coords [80.2707, 13.0827]],
          Print [Str ''  Analysis Period: '', Str ''2023-01-01'', Str '' to '',
                 Str ''2024-12-31''],
          Print [Str ''  Focus Months: May - September (summer)''],
          Print [Str ''\<newline>Loading FAO Admin Boundaries...''],
          Call ''ee.FeatureCollection'' [Str ''FAO/GAUL/2015/level1''],
          Print [Str ''\<newline>Extracting ROI for coordinates: '', Coords [80.2707, 13.0827]],
          Call ''ee.Geometry.Point'' [Coords [80.2707, 13.0827]],
          Call ''filterBounds'' [],
          Call ''map'' [],
          Print [Str ''\<newline>Loading Dynamic World urban classification...''],
          Call ''ee.ImageCollection'' [Str ''GOOGLE/DYNAMICWORLD/V1''],
          Call ''select'' [Str ''label''],
          Call ''filterDate'' [Str ''2023-01-01'', Str ''2024-12-31''],
          Call ''filterBounds'' [Reg boundary],
          Call ''ee.Filter.calendarRange'' [Num 5, Num 9, Str ''month''],
          Call ''filter'' [],
          Call ''mode'' [],
          Print [Str ''Urban mask created (Class 6 - Built Area)''],
          Print [Str ''\<newline>Loading Landsat 8 thermal data ('', Str ''2023-01-01'',
                 Str '' to '', Str ''2024-12-31'', Str '')...''],
          Call ''ee.ImageCollection'' [Str ''LANDSAT/LC08/C02/T1_L2''],
          Call ''select'' [Str ''ST_B10''],
          Call ''filterBounds'' [Reg boundary],
          Call ''filterDate'' [Str ''2023-01-01'', Str ''2024-12-31''],
          Call ''ee.Filter.lt'' [Str ''CLOUD_COVER'', Num 10],
          Call ''filter'' [],
          Call ''size'' [],
          Call ''getInfo'' [],
          Print [Str ''Found '', Num (real count),
                 Str '' Landsat 8 scenes (cloud cover < 10%)''],
          Call ''map'' [],
          Print [Str ''\<newline>Computing median Land Surface Temperature...''],
          Call ''median'' [],
          Call ''ee.Reducer.mean'' [],
          Call ''reduceRegion''
            [Dict [(''reducer'', Str ''mean''), (''geometry'', Reg boundary),
                   (''scale'', Num 100), (''maxPixels'', Num (10 ^ 13))]]],
       ncalls = 24\<rparr>)"
proof -
  have f: "faults w n = None" if "n < 24" for n using assms that by blast
  show ?thesis
    by (simp add: script_def main_def step_defs io_step Let_def initial_state_def f)
qed

section \<open>The index\<close>

lemma calculate_uhi_index_run:
  "\<exists>u s'. calculate_uhi_index medianThermal MEAN s = (Inr u, s') \<and>
      band u = ''UHI_Index'' \<and>
      (MEAN \<noteq> 0 \<longrightarrow>
        (\<forall>p. px u p = map_option (\<lambda>TIR. (TIR - MEAN) / MEAN) (px medianThermal p)))"
  by (simp add: calculate_uhi_index_def Let_def io_run px_rename px_expression
      Image_rename_def Image_expression_def split: option.splits)

lemma compute_lst_run:
  assumes "faults w (ncalls s) = None" "faults w (ncalls s + 1) = None"
    "faults w (ncalls s + 2) = None"
  shows "compute_lst w landsatThermal analysisBoundary s =
     (Inl (Exception ''TypeError''),
      s\<lparr>trace := trace s @
          [Print [Str ''\<newline>Computing median Land Surface Temperature...''],
           Call ''median'' [],
           Call ''ee.Reducer.mean'' [],
           Call ''reduceRegion''
             [Dict [(''reducer'', Str ''mean''), (''geometry'', Reg analysisBoundary),
                    (''scale'', Num 100), (''maxPixels'', Num (10 ^ 13))]]],
        ncalls := ncalls s + 3\<rparr>)"
proof -
  from assms(2) have a: "faults w (Suc (ncalls s)) = None" by simp
  from assms(3) have b: "faults w (Suc (Suc (ncalls s))) = None" by (simp add: numeral_2_eq_2)
  show ?thesis
    by (simp add: compute_lst_def reduceRegion_positional_def io_step assms(1) a b)
qed

lemma script_never_calculates:
  "Print [Str ''\<newline>Calculating UHI Index...''] \<notin> set (trace (snd (script w)))"
proof -
  from main_emits_no_index_line[of w]
  obtain tr where tr: "trace (snd (main w initial_state)) = trace initial_state @ tr"
    "list_all (\<lambda>e. \<forall>items. e = Print items \<longrightarrow>
             items \<noteq> [Str ''\<newline>Calculating UHI Index...'']) tr"
    unfolding emits_def by blast
  from tr(1) have "trace (snd (script w)) = tr" by (simp add: script_def initial_state_def)
  with tr(2) show ?thesis by (auto simp: list_all_iff)
qed

text \<open>
  Claim C3. \<^verbatim>\<open>calculate_uhi_index\<close> returns a raster whose band is named
  \<^verbatim>\<open>UHI_Index\<close> and whose value at every pixel is \<open>(TIR - MEAN) / MEAN\<close>, where
  \<open>TIR\<close> is the value of the median raster at that pixel and \<open>MEAN\<close> is the number the
  function is given. The number is meant to be the regional mean fetched by
  \<^verbatim>\<open>compute_lst\<close>, but that step never returns one: it raises at \<^verbatim>\<open>reduceRegion\<close>, in
  every world and from every state, so no run of the script reaches
  \<^verbatim>\<open>calculate_uhi_index\<close>. When no library call before it raises, the run ends at
  \<^verbatim>\<open>reduceRegion\<close>, the 24th call, with exit status 1.
\<close>

theorem uhi_index_formula_holds_but_mean_is_never_fetched:
  "(\<exists>uhiIndex s'.
      calculate_uhi_index medianThermal MEAN s = (Inr uhiIndex, s') \<and>
      band uhiIndex = ''UHI_Index'' \<and>
      (MEAN \<noteq> 0 \<longrightarrow>
        (\<forall>p. px uhiIndex p = map_option (\<lambda>TIR. (TIR - MEAN) / MEAN) (px medianThermal p))))
   \<and>
   (\<exists>e. fst (compute_lst w landsatThermal analysisBoundary s) = Inl e)
   \<and>
   (faults w (ncalls s) = None \<and> faults w (ncalls s + 1) = None \<and>
    faults w (ncalls s + 2) = None \<longrightarrow>
      compute_lst w landsatThermal analysisBoundary s =
        (Inl (Exception ''TypeError''),
         s\<lparr>trace := trace s @
             [Print [Str ''\<newline>Computing median Land Surface Temperature...''],
              Call ''median'' [],
              Call ''ee.Reducer.mean'' [],
              Call ''reduceRegion''
                [Dict [(''reducer'', Str ''mean''), (''geometry'', Reg analysisBoundary),
                       (''scale'', Num 100), (''maxPixels'', Num (10 ^ 13))]]],
           ncalls := ncalls s + 3\<rparr>))
   \<and>
   (\<exists>e. fst (script w) = Inl e)
   \<and>
   Print [Str ''\<newline>Calculating UHI Index...''] \<notin> set (trace (snd (script w)))
   \<and>
   ((\<forall>n<24. faults w n = None) \<longrightarrow>
      fst (script w) = Inl (Exception ''TypeError'') \<and>
      exit_status (fst (script w)) = 1 \<and>
      ncalls (snd (script w)) = 24 \<and>
      (\<exists>boundary. last (trace (snd (script w))) =
         Call ''reduceRegion''
           [Dict [(''reducer'', Str ''mean''), (''geometry'', Reg boundary),
                  (''scale'', Num 100), (''maxPixels'', Num (10 ^ 13))]]))"
proof (intro conjI impI)
  show "\<exists>uhiIndex s'.
      calculate_uhi_index medianThermal MEAN s = (Inr uhiIndex, s') \<and>
      band uhiIndex = ''UHI_Index'' \<and>
      (MEAN \<noteq> 0 \<longrightarrow>
        (\<forall>p. px uhiIndex p = map_option (\<lambda>TIR. (TIR - MEAN) / MEAN) (px medianThermal p)))"
    by (rule calculate_uhi_index_run)
  show "\<exists>e. fst (compute_lst w landsatThermal analysisBoundary s) = Inl e"
    using compute_lst_never_returns[of w landsatThermal analysisBoundary]
    unfolding never_returns_def by blast
  show "\<exists>e. fst (script w) = Inl e"
    using main_never_returns[of w] unfolding never_returns_def script_def by blast
  show "Print [Str ''\<newline>Calculating UHI Index...''] \<notin> set (trace (snd (script w)))"
    by (rule script_never_calculates)
next
  assume "faults w (ncalls s) = None \<and> faults w (ncalls s + 1) = None \<and>
    faults w (ncalls s + 2) = None"
  then show "compute_lst w landsatThermal analysisBoundary s =
        (Inl (Exception ''TypeError''),
         s\<lparr>trace := trace s @
             [Print [Str ''\<newline>Computing median Land Surface Temperature...''],
              Call ''median'' [],
              Call ''ee.Reducer.mean'' [],
              Call ''reduceRegion''
                [Dict [(''reducer'', Str ''mean''), (''geometry'', Reg analysisBoundary),
                       (''scale'', Num 100), (''maxPixels'', Num (10 ^ 13))]]],
           ncalls := ncalls s + 3\<rparr>)"
    by (simp add: compute_lst_run)
next
  assume a: "\<forall>n<24. faults w n = None"
  from fault_free_run[OF a] obtain boundary count tr where
    run: "script w = (Inl (Exception ''TypeError''), \<lparr>trace = tr, ncalls = 24\<rparr>)"
    and l: "tr \<noteq> []" "last tr = Call ''reduceRegion''
           [Dict [(''reducer'', Str ''mean''), (''geometry'', Reg boundary),
                  (''scale'', Num 100), (''maxPixels'', Num (10 ^ 13))]]"
    by force
  from run show "fst (script w) = Inl (Exception ''TypeError'')" by simp
  from run show "exit_status (fst (script w)) = 1" by simp
  from run show "ncalls (snd (script w)) = 24" by simp
  from run l show "\<exists>boundary. last (trace (snd (script w))) =
         Call ''reduceRegion''
           [Dict [(''reducer'', Str ''mean''), (''geometry'', Reg boundary),
                  (''scale'', Num 100), (''maxPixels'', Num (10 ^ 13))]]"
    by auto
qed

theorem uhi_index_formula_holds_but_mean_is_never_fetched_witness:
  "(\<exists>uhiIndex s'.
      calculate_uhi_index demo_median 303 initial_state = (Inr uhiIndex, s') \<and>
      band uhiIndex = ''UHI_Index'' \<and>
      px uhiIndex (0, 1) = Some (- 2 / 101))
   \<and>
   compute_lst demo_world (Some [demo_median]) [demo_region] initial_state =
     (Inl (Exception ''TypeError''),
      \<lparr>trace =
         [Print [Str ''\<newline>Computing median Land Surface Temperature...''],
          Call ''median'' [],
          Call ''ee.Reducer.mean'' [],
          Call ''reduceRegion''
            [Dict [(''reducer'', Str ''mean''), (''geometry'', Reg [demo_region]),
                   (''scale'', Num 100), (''maxPixels'', Num (10 ^ 13))]]],
       ncalls = 3\<rparr>)
   \<and>
   fst (script demo_world) = Inl (Exception ''TypeError'') \<and>
   exit_status (fst (script demo_world)) = 1 \<and>
   ncalls (snd (script demo_world)) = 24"
proof -
  note inst = uhi_index_formula_holds_but_mean_is_never_fetched[of demo_median 303
      initial_state demo_world "Some [demo_median]" "[demo_region]"]
  have nz: "(303::real) \<noteq> 0" by simp
  have pm: "px demo_median (0, 1) = Some 297" by (simp add: demo_median_def)
  have nf: "faults demo_world n = None" for n by (simp add: demo_world_def)
  from inst nz obtain u s' where
    u: "calculate_uhi_index demo_median 303 initial_state = (Inr u, s')"
      "band u = ''UHI_Index''"
      "\<forall>p. px u p = map_option (\<lambda>TIR. (TIR - 303) / 303) (px demo_median p)"
    by blast
  from u(3)[rule_format, of "(0, 1)"] pm have "px u (0, 1) = Some (- 2 / 101)" by simp
  with u(1,2) have first: "\<exists>uhiIndex s'.
      calculate_uhi_index demo_median 303 initial_state = (Inr uhiIndex, s') \<and>
      band uhiIndex = ''UHI_Index'' \<and> px uhiIndex (0, 1) = Some (- 2 / 101)"
    by blast
  from inst nf have second:
    "compute_lst demo_world (Some [demo_median]) [demo_region] initial_state =
     (Inl (Exception ''TypeError''),
      \<lparr>trace =
         [Print [Str ''\<newline>Computing median Land Surface Temperature...''],
          Call ''median'' [],
          Call ''ee.Reducer.mean'' [],
          Call ''reduceRegion''
            [Dict [(''reducer'', Str ''mean''), (''geometry'', Reg [demo_region]),
                   (''scale'', Num 100), (''maxPixels'', Num (10 ^ 13))]]],
       ncalls = 3\<rparr>)"
    by (simp add: initial_state_def)
  from inst nf have third: "fst (script demo_world) = Inl (Exception ''TypeError'') \<and>
   exit_status (fst (script demo_world)) = 1 \<and>
   ncalls (snd (script demo_world)) = 24"
    by blast
  from first second third show ?thesis by blast
qed

section \<open>Visualization\<close>

lemma mild_return: "mild n0 (io_return x)"
  by (simp add: mild_def io_return_def)

lemma mild_raise: "mild n0 (raise (Exception msg))"
  by (simp add: mild_def raise_def)

lemma mild_print: "mild n0 (print items)"
  by (simp add: mild_def print_def)

lemma mild_call: "only_Exception_from w n0 \<Longrightarrow> mild n0 (call w name args r)"
  by (auto simp: mild_def only_Exception_from_def call_def Let_def split: option.splits)

lemma mild_bind:
  assumes "mild n0 m" and "\<And>x. mild n0 (f x)"
  shows "mild n0 (io_bind m f)"
  unfolding mild_def
proof (intro allI impI)
  fix s :: pystate assume s: "n0 \<le> ncalls s"
  obtain r s' where ms: "m s = (r, s')" by (cases "m s")
  from assms(1) s ms have m1: "n0 \<le> ncalls s'"
    and m2: "\<forall>e. r = Inl e \<longrightarrow> (\<exists>msg. e = Exception msg)"
    unfolding mild_def by (metis snd_conv, metis fst_conv)
  show "n0 \<le> ncalls (snd (io_bind m f s)) \<and>
        (\<forall>e. fst (io_bind m f s) = Inl e \<longrightarrow> (\<exists>msg. e = Exception msg))"
  proof (cases r)
    case (Inl e)
    with ms m1 m2 show ?thesis by (simp add: io_bind_def)
  next
    case (Inr x)
    with ms have "io_bind m f s = f x s'" by (simp add: io_bind_def)
    with assms(2)[of x] m1 show ?thesis unfolding mild_def by simp
  qed
qed

lemma mild_then: "mild n0 m \<Longrightarrow> mild n0 k \<Longrightarrow> mild n0 (io_then m k)"
  by (simp add: io_then_def mild_bind)

lemma mild_if: "mild n0 a \<Longrightarrow> mild n0 b \<Longrightarrow> mild n0 (if c then a else b)"
  by simp

lemma mild_index: "mild n0 (index xs i)"
  by (simp add: index_def mild_return mild_raise)

lemmas mild_rules = mild_return mild_raise mild_print mild_bind mild_then mild_if mild_index

lemma after_print:
  "\<exists>t. k (s\<lparr>trace := trace s @ [Print items]\<rparr>) = (Inr x, t) \<and> Q t \<Longrightarrow>
   \<exists>t. io_then (print items) k s = (Inr x, t) \<and> Q t"
  by (simp add: io_then_def io_bind_def print_def)

lemma ends_with_print: "ends_with (Print items) (print items)"
  by (auto simp: ends_with_def print_def)

lemma ends_with_bind: "(\<And>x. ends_with ev (f x)) \<Longrightarrow> ends_with ev (io_bind m f)"
  unfolding ends_with_def io_bind_def
  by (auto split: prod.splits sum.splits)

lemma ends_with_then: "ends_with ev k \<Longrightarrow> ends_with ev (io_then m k)"
  by (simp add: io_then_def ends_with_bind)

lemmas ends_with_rules = ends_with_print ends_with_bind ends_with_then

lemma try_catches:
  assumes "mild n0 body" and "ends_with ev body" and "n0 \<le> ncalls s"
    and "\<And>msg s'. handler (Exception msg) s' = (Inr (), s'\<lparr>trace := trace s' @ hlines msg\<rparr>)"
  shows "\<exists>t. try_except_Exception body handler s = (Inr (), t) \<and>
           (last (trace t) = ev \<or> (\<exists>msg pre. trace t = pre @ hlines msg))"
proof -
  obtain r s' where bs: "body s = (r, s')" by (cases "body s")
  show ?thesis
  proof (cases r)
    case (Inl e)
    with assms(1,3) bs obtain msg where "e = Exception msg"
      unfolding mild_def by (metis fst_conv)
    with Inl bs assms(4)[of msg s'] show ?thesis
      by (auto simp: try_except_Exception_def)
  next
    case (Inr x)
    with bs assms(2) have "last (trace s') = ev" unfolding ends_with_def by blast
    with Inr bs show ?thesis by (simp add: try_except_Exception_def)
  qed
qed

lemma visualize_catches:
  assumes "only_Exception_from w (ncalls s)"
  shows "\<exists>t. visualize_interactive w medianThermal uhiClasses
          analysisBoundary centralCoord s
               = (Inr (), t) \<and>
           (last (trace t) =
              Print [Str ''  Open this file in your browser to view the visualization''] \<or>
            (\<exists>msg pre. trace t = pre @
               [Print [Str ''Could not create interactive map: '', Err (Exception msg)],
                Print [Str ''  (geemap may not be installed. Install with: pip install geemap)'']]))"
  unfolding visualize_interactive_def Let_def
  apply (rule after_print)
  apply (rule try_catches[where ?n0.0 = "ncalls s"])
     apply (intro mild_rules mild_call assms)
    apply (intro ends_with_rules)
   apply simp
  apply (simp add: io_then_def io_bind_def print_def)
  done

lemma closing_prints_run:
  "closing_prints t =
     (Inr (),
      t\<lparr>trace := trace t @
         [Print [Str (CHR 0x0A # replicate 60 CHR ''='')],
          Print [Str ''Analysis Complete!''],
          Print [Str (replicate 60 CHR ''='')],
          Print [Str ''\<newline>Next Steps:''],
          Print [Str ''  1. Check your Google Drive for the exported GeoTIFF''],
          Print [Str ''  2. Open uhi_map.html in your browser for visualization''],
          Print [Str ''  3. Use QGIS or ArcGIS to further analyze the results''],
          Print [Str ''\<newline>For real-time task status, visit:''],
          Print [Str ''  https://code.earthengine.google.com/tasks''],
          Print [Str (replicate 60 CHR ''='')]]\<rparr>)"
  by (simp add: closing_prints_def io_then_def io_bind_print print_run)

lemma visualize_first_fault:
  assumes k: "k < 5" and len: "2 \<le> length centralCoord"
    and before: "\<forall>j<k. faults w (ncalls s + j) = None"
    and at: "faults w (ncalls s + k) = Some e"
  shows "visualize_interactive w medianThermal uhiClasses analysisBoundary centralCoord s =
     (case e of
        Exception msg \<Rightarrow>
          (Inr (),
           s\<lparr>trace := trace s @
               Print [Str ''\<newline>Creating interactive visualization...''] #
               take (Suc k)
                 [Call ''geemap.Map''
                    [Kw ''center'' (Coords [centralCoord ! 1, centralCoord ! 0]),
                     Kw ''zoom'' (Num 10)],
                  Call ''Map.addLayer''
                    [Img (Image_clip medianThermal analysisBoundary),
                     Dict [(''min'', Num 280), (''max'', Num 310),
                           (''palette'',
                            Strs [''blue'', ''cyan'', ''green'', ''yellow'', ''red''])],
                     Str ''LST (Kelvin)''],
                  Call ''Map.addLayer''
                    [Img (Image_clip uhiClasses analysisBoundary),
                     Dict [(''min'', Num 1), (''max'', Num 5),
                           (''palette'',
                            Strs [''white'', ''yellow'', ''orange'', ''red'', ''darkred''])],
                     Str ''UHI Classes''],
                  Call ''Map.addLayerControl'' [],
                  Call ''Map.save'' [Str ''uhi_map.html'']] @
               [Print [Str ''Could not create interactive map: '', Err e],
                Print [Str ''  (geemap may not be installed. Install with: pip install geemap)'']],
             ncalls := ncalls s + Suc k\<rparr>)
      | _ \<Rightarrow>
          (Inl e,
           s\<lparr>trace := trace s @
               Print [Str ''\<newline>Creating interactive visualization...''] #
               take (Suc k)
                 [Call ''geemap.Map''
                    [Kw ''center'' (Coords [centralCoord ! 1, centralCoord ! 0]),
                     Kw ''zoom'' (Num 10)],
                  Call ''Map.addLayer''
                    [Img (Image_clip medianThermal analysisBoundary),
                     Dict [(''min'', Num 280), (''max'', Num 310),
                           (''palette'',
                            Strs [''blue'', ''cyan'', ''green'', ''yellow'', ''red''])],
                     Str ''LST (Kelvin)''],
                  Call ''Map.addLayer''
                    [Img (Image_clip uhiClasses analysisBoundary),
                     Dict [(''min'', Num 1), (''max'', Num 5),
                           (''palette'',
                            Strs [''white'', ''yellow'', ''orange'', ''red'', ''darkred''])],
                     Str ''UHI Classes''],
                  Call ''Map.addLayerControl'' [],
                  Call ''Map.save'' [Str ''uhi_map.html'']],
             ncalls := ncalls s + Suc k\<rparr>))"
proof -
  have i: "Suc 0 < length centralCoord" "centralCoord \<noteq> []" using len by auto
  have f0: "faults w (ncalls s) = None" if "0 < k"
    using before[rule_format, of 0] that by simp
  have f1: "faults w (Suc (ncalls s)) = None" if "1 < k"
    using before[rule_format, of 1] that by simp
  have f2: "faults w (Suc (Suc (ncalls s))) = None" if "2 < k"
    using before[rule_format, of 2] that by (simp add: numeral_eq_Suc)
  have f3: "faults w (Suc (Suc (Suc (ncalls s)))) = None" if "3 < k"
    using before[rule_format, of 3] that by (simp add: numeral_eq_Suc)
  from k consider "k = 0" | "k = 1" | "k = 2" | "k = 3" | "k = 4" by linarith
  then show ?thesis
  proof cases
    case 1
    with at have "faults w (ncalls s) = Some e" by simp
    with 1 show ?thesis
      by (cases e) (simp_all add: visualize_interactive_def index_def io_step Let_def i)
  next
    case 2
    with at have "faults w (Suc (ncalls s)) = Some e" by simp
    with 2 f0 show ?thesis
      by (cases e) (simp_all add: visualize_interactive_def index_def io_step Let_def i)
  next
    case 3
    with at have "faults w (Suc (Suc (ncalls s))) = Some e" by (simp add: numeral_eq_Suc)
    with 3 f0 f1 show ?thesis
      by (cases e) (simp_all add: visualize_interactive_def index_def io_step Let_def i)
  next
    case 4
    with at have "faults w (Suc (Suc (Suc (ncalls s)))) = Some e" by (simp add: numeral_eq_Suc)
    with 4 f0 f1 f2 show ?thesis
      by (cases e) (simp_all add: visualize_interactive_def index_def io_step Let_def i)
  next
    case 5
    with at have "faults w (Suc (Suc (Suc (Suc (ncalls s))))) = Some e"
      by (simp add: numeral_eq_Suc)
    with 5 f0 f1 f2 f3 show ?thesis
      by (cases e) (simp_all add: visualize_interactive_def index_def io_step Let_def i)
  qed
qed

lemma try_escapes:
  assumes "\<And>e s'. \<exists>t. handler e s' = (Inr (), t)"
    and "fst (try_except_Exception body handler s) = Inl e"
  shows "\<forall>msg. e \<noteq> Exception msg"
proof (intro allI notI)
  fix msg assume e: "e = Exception msg"
  obtain r s' where bs: "body s = (r, s')" by (cases "body s")
  show False
  proof (cases "\<exists>m. r = Inl (Exception m)")
    case True
    then obtain m where r: "r = Inl (Exception m)" by blast
    from assms(1)[of "Exception m" s'] obtain t where "handler (Exception m) s' = (Inr (), t)"
      by blast
    with bs r assms(2) show False by (simp add: try_except_Exception_def)
  next
    case False
    with bs have "try_except_Exception body handler s = (r, s')"
      by (auto simp: try_except_Exception_def split: sum.splits exn.splits)
    with assms(2) e False show False by simp
  qed
qed

lemma visualize_escapes:
  assumes "fst (visualize_interactive w medianThermal uhiClasses
          analysisBoundary centralCoord s) = Inl e"
  shows "\<forall>msg. e \<noteq> Exception msg"
  using assms unfolding visualize_interactive_def io_then_def io_bind_print
  by (rule try_escapes[rotated]) (simp add: io_bind_def print_def)

lemma take_calls_last:
  assumes "k < length calls" "list_all (\<lambda>e. \<exists>name args. e = Call name args) calls"
  shows "\<exists>name args. last (pre @ x # take (Suc k) calls) = Call name args"
proof -
  from assms(1) have ne: "take (Suc k) calls \<noteq> []" by auto
  then have "last (pre @ x # take (Suc k) calls) = last (take (Suc k) calls)" by simp
  also have "\<dots> \<in> set calls" using ne by (meson in_set_takeD last_in_set)
  finally show ?thesis using assms(2) by (auto simp: list_all_iff)
qed

text \<open>
  Claim C6, as the code has it. No exception of class \<^verbatim>\<open>Exception\<close> leaves the
  visualization step, from any state and in any world. When the library raises nothing
  but exceptions of that class, the step returns normally, its last lines being the two
  lines that report the saved map or the warning with the exception followed by the
  install hint, and the statements that follow the step in the driver, which are the
  closing lines, run to the end. When the first library call of the step to raise raises
  an exception of class \<^verbatim>\<open>Exception\<close>, the warning names that exception. When it
  raises an exception outside that class (\<^verbatim>\<open>KeyboardInterrupt\<close>, \<^verbatim>\<open>SystemExit\<close>), the
  step ends with that exception at that call: nothing is printed after it, and the
  statements that follow the step do not run. A coordinate with fewer than two
  components makes the indexing raise \<^verbatim>\<open>IndexError\<close>, which is caught like any other
  exception of class \<^verbatim>\<open>Exception\<close>. Whenever the step returns, the closing lines
  are printed and the run ends normally.
\<close>

theorem visualization_failure_is_not_fatal:
  "(\<forall>e. fst (visualize_interactive w medianThermal uhiClasses
          analysisBoundary centralCoord s) = Inl e \<longrightarrow>
      (\<forall>msg. e \<noteq> Exception msg))
   \<and>
   (only_Exception_from w (ncalls s) \<longrightarrow>
      (\<exists>t. visualize_interactive w medianThermal uhiClasses
              analysisBoundary centralCoord s = (Inr (), t) \<and>
           (last (trace t) =
              Print [Str ''  Open this file in your browser to view the visualization''] \<or>
            (\<exists>msg pre. trace t = pre @
               [Print [Str ''Could not create interactive map: '', Err (Exception msg)],
            Print [Str ''  (geemap may not be installed. Install with: pip install geemap)'']]))) \<and>
      fst (io_then (visualize_interactive w medianThermal uhiClasses analysisBoundary centralCoord)
             closing_prints s) = Inr () \<and>
      exit_status (fst (io_then (visualize_interactive w medianThermal uhiClasses
              analysisBoundary centralCoord)
             closing_prints s)) = 0 \<and>
      (\<exists>pre. trace (snd (io_then (visualize_interactive w medianThermal uhiClasses
              analysisBoundary centralCoord)
             closing_prints s)) = pre @
         [Print [Str (CHR 0x0A # replicate 60 CHR ''='')],
          Print [Str ''Analysis Complete!''],
          Print [Str (replicate 60 CHR ''='')],
          Print [Str ''\<newline>Next Steps:''],
          Print [Str ''  1. Check your Google Drive for the exported GeoTIFF''],
          Print [Str ''  2. Open uhi_map.html in your browser for visualization''],
          Print [Str ''  3. Use QGIS or ArcGIS to further analyze the results''],
          Print [Str ''\<newline>For real-time task status, visit:''],
          Print [Str ''  https://code.earthengine.google.com/tasks''],
          Print [Str (replicate 60 CHR ''='')]]))
   \<and>
   main w =
     io_bind (before_visualization w) (\<lambda>(medianThermal, uhiClasses, analysisBoundary, centralCoord).
       io_then (visualize_interactive w medianThermal uhiClasses analysisBoundary centralCoord)
         closing_prints)
   \<and>
   (\<forall>k msg. k < 5 \<longrightarrow> 2 \<le> length centralCoord \<longrightarrow>
      (\<forall>j<k. faults w (ncalls s + j) = None) \<longrightarrow>
      faults w (ncalls s + k) = Some (Exception msg) \<longrightarrow>
      (\<exists>t pre. visualize_interactive w medianThermal uhiClasses
              analysisBoundary centralCoord s = (Inr (), t) \<and>
         trace t = pre @
           [Print [Str ''Could not create interactive map: '', Err (Exception msg)],
            Print [Str ''  (geemap may not be installed. Install with: pip install geemap)'']]))
   \<and>
   (\<forall>k e. k < 5 \<longrightarrow> 2 \<le> length centralCoord \<longrightarrow>
      (\<forall>j<k. faults w (ncalls s + j) = None) \<longrightarrow>
      faults w (ncalls s + k) = Some e \<longrightarrow> (\<forall>msg. e \<noteq> Exception msg) \<longrightarrow>
      fst (visualize_interactive w medianThermal uhiClasses
              analysisBoundary centralCoord s) = Inl e \<and>
      (\<exists>name args.
         last (trace (snd (visualize_interactive w medianThermal uhiClasses
                 analysisBoundary centralCoord s)))
           = Call name args) \<and>
      io_then (visualize_interactive w medianThermal uhiClasses analysisBoundary centralCoord)
        closing_prints s =
      visualize_interactive w medianThermal uhiClasses analysisBoundary centralCoord s)
   \<and>
   (length centralCoord < 2 \<longrightarrow>
      visualize_interactive w medianThermal uhiClasses analysisBoundary centralCoord s =
        (Inr (),
         s\<lparr>trace := trace s @
             [Print [Str ''\<newline>Creating interactive visualization...''],
              Print [Str ''Could not create interactive map: '',
                     Err (Exception ''list index out of range'')],
              Print [Str ''  (geemap may not be installed. Install with: pip install geemap)'']]\<rparr>))
   \<and>
   (\<forall>t. visualize_interactive w medianThermal uhiClasses
           analysisBoundary centralCoord s = (Inr (), t) \<longrightarrow>
      io_then (visualize_interactive w medianThermal uhiClasses analysisBoundary centralCoord)
        closing_prints s =
        (Inr (),
         t\<lparr>trace := trace t @
             [Print [Str (CHR 0x0A # replicate 60 CHR ''='')],
              Print [Str ''Analysis Complete!''],
              Print [Str (replicate 60 CHR ''='')],
              Print [Str ''\<newline>Next Steps:''],
              Print [Str ''  1. Check your Google Drive for the exported GeoTIFF''],
              Print [Str ''  2. Open uhi_map.html in your browser for visualization''],
              Print [Str ''  3. Use QGIS or ArcGIS to further analyze the results''],
              Print [Str ''\<newline>For real-time task status, visit:''],
              Print [Str ''  https://code.earthengine.google.com/tasks''],
              Print [Str (replicate 60 CHR ''='')]]\<rparr>))"
proof (intro conjI)
  show "(\<forall>e. fst (visualize_interactive w medianThermal uhiClasses
          analysisBoundary centralCoord s) = Inl e \<longrightarrow>
      (\<forall>msg. e \<noteq> Exception msg))"
    using visualize_escapes by blast
  show "(only_Exception_from w (ncalls s) \<longrightarrow>
      (\<exists>t. visualize_interactive w medianThermal uhiClasses
              analysisBoundary centralCoord s = (Inr (), t) \<and>
           (last (trace t) =
              Print [Str ''  Open this file in your browser to view the visualization''] \<or>
            (\<exists>msg pre. trace t = pre @
               [Print [Str ''Could not create interactive map: '', Err (Exception msg)],
            Print [Str ''  (geemap may not be installed. Install with: pip install geemap)'']]))) \<and>
      fst (io_then (visualize_interactive w medianThermal uhiClasses analysisBoundary centralCoord)
             closing_prints s) = Inr () \<and>
      exit_status (fst (io_then (visualize_interactive w medianThermal uhiClasses
              analysisBoundary centralCoord)
             closing_prints s)) = 0 \<and>
      (\<exists>pre. trace (snd (io_then (visualize_interactive w medianThermal uhiClasses
              analysisBoundary centralCoord)
             closing_prints s)) = pre @
         [Print [Str (CHR 0x0A # replicate 60 CHR ''='')],
          Print [Str ''Analysis Complete!''],
          Print [Str (replicate 60 CHR ''='')],
          Print [Str ''\<newline>Next Steps:''],
          Print [Str ''  1. Check your Google Drive for the exported GeoTIFF''],
          Print [Str ''  2. Open uhi_map.html in your browser for visualization''],
          Print [Str ''  3. Use QGIS or ArcGIS to further analyze the results''],
          Print [Str ''\<newline>For real-time task status, visit:''],
          Print [Str ''  https://code.earthengine.google.com/tasks''],
          Print [Str (replicate 60 CHR ''='')]]))"
  proof (intro impI)
    assume only: "only_Exception_from w (ncalls s)"
    from visualize_catches[OF only, of medianThermal uhiClasses analysisBoundary centralCoord]
    obtain t where t: "visualize_interactive w medianThermal uhiClasses
            analysisBoundary centralCoord s = (Inr (), t)"
      and l: "last (trace t) =
              Print [Str ''  Open this file in your browser to view the visualization''] \<or>
            (\<exists>msg pre. trace t = pre @
               [Print [Str ''Could not create interactive map: '', Err (Exception msg)],
            Print [Str ''  (geemap may not be installed. Install with: pip install geemap)'']])"
      by blast
    from t have run: "io_then (visualize_interactive w medianThermal uhiClasses
            analysisBoundary centralCoord)
             closing_prints s = closing_prints t"
      by (simp add: io_then_def io_bind_def)
    show "(\<exists>t. visualize_interactive w medianThermal uhiClasses
            analysisBoundary centralCoord s = (Inr (), t) \<and>
           (last (trace t) =
              Print [Str ''  Open this file in your browser to view the visualization''] \<or>
            (\<exists>msg pre. trace t = pre @
               [Print [Str ''Could not create interactive map: '', Err (Exception msg)],
            Print [Str ''  (geemap may not be installed. Install with: pip install geemap)'']]))) \<and>
      fst (io_then (visualize_interactive w medianThermal uhiClasses analysisBoundary centralCoord)
             closing_prints s) = Inr () \<and>
      exit_status (fst (io_then (visualize_interactive w medianThermal uhiClasses
              analysisBoundary centralCoord)
             closing_prints s)) = 0 \<and>
      (\<exists>pre. trace (snd (io_then (visualize_interactive w medianThermal uhiClasses
              analysisBoundary centralCoord)
             closing_prints s)) = pre @
         [Print [Str (CHR 0x0A # replicate 60 CHR ''='')],
          Print [Str ''Analysis Complete!''],
          Print [Str (replicate 60 CHR ''='')],
          Print [Str ''\<newline>Next Steps:''],
          Print [Str ''  1. Check your Google Drive for the exported GeoTIFF''],
          Print [Str ''  2. Open uhi_map.html in your browser for visualization''],
          Print [Str ''  3. Use QGIS or ArcGIS to further analyze the results''],
          Print [Str ''\<newline>For real-time task status, visit:''],
          Print [Str ''  https://code.earthengine.google.com/tasks''],
          Print [Str (replicate 60 CHR ''='')]])"
      unfolding run closing_prints_run using t l by simp
  qed
  show "main w =
     io_bind (before_visualization w) (\<lambda>(medianThermal, uhiClasses, analysisBoundary, centralCoord).
       io_then (visualize_interactive w medianThermal uhiClasses analysisBoundary centralCoord)
         closing_prints)"
    by (rule main_split)
  show "(\<forall>k msg. k < 5 \<longrightarrow> 2 \<le> length centralCoord \<longrightarrow>
      (\<forall>j<k. faults w (ncalls s + j) = None) \<longrightarrow>
      faults w (ncalls s + k) = Some (Exception msg) \<longrightarrow>
      (\<exists>t pre. visualize_interactive w medianThermal uhiClasses
              analysisBoundary centralCoord s = (Inr (), t) \<and>
         trace t = pre @
           [Print [Str ''Could not create interactive map: '', Err (Exception msg)],
            Print [Str ''  (geemap may not be installed. Install with: pip install geemap)'']]))"
  proof (intro allI impI)
    fix k msg
    assume a: "k < 5" "2 \<le> length centralCoord" "\<forall>j<k. faults w (ncalls s + j) = None"
      "faults w (ncalls s + k) = Some (Exception msg)"
    from visualize_first_fault[OF a, of medianThermal uhiClasses analysisBoundary]
    show "\<exists>t pre. visualize_interactive w medianThermal uhiClasses
            analysisBoundary centralCoord s = (Inr (), t) \<and>
         trace t = pre @
           [Print [Str ''Could not create interactive map: '', Err (Exception msg)],
            Print [Str ''  (geemap may not be installed. Install with: pip install geemap)'']]"
      by simp
  qed
  show "(\<forall>k e. k < 5 \<longrightarrow> 2 \<le> length centralCoord \<longrightarrow>
      (\<forall>j<k. faults w (ncalls s + j) = None) \<longrightarrow>
      faults w (ncalls s + k) = Some e \<longrightarrow> (\<forall>msg. e \<noteq> Exception msg) \<longrightarrow>
      fst (visualize_interactive w medianThermal uhiClasses
              analysisBoundary centralCoord s) = Inl e \<and>
      (\<exists>name args.
         last (trace (snd (visualize_interactive w medianThermal uhiClasses
                 analysisBoundary centralCoord s)))
           = Call name args) \<and>
      io_then (visualize_interactive w medianThermal uhiClasses analysisBoundary centralCoord)
        closing_prints s =
      visualize_interactive w medianThermal uhiClasses analysisBoundary centralCoord s)"
  proof (intro allI impI)
    fix k e
    assume a: "k < 5" "2 \<le> length centralCoord" "\<forall>j<k. faults w (ncalls s + j) = None"
      "faults w (ncalls s + k) = Some e"
      and ne: "\<forall>msg. e \<noteq> Exception msg"
    define calls where "calls =
                 [Call ''geemap.Map''
                    [Kw ''center'' (Coords [centralCoord ! 1, centralCoord ! 0]),
                     Kw ''zoom'' (Num 10)],
                  Call ''Map.addLayer''
                    [Img (Image_clip medianThermal analysisBoundary),
                     Dict [(''min'', Num 280), (''max'', Num 310),
                           (''palette'',
                            Strs [''blue'', ''cyan'', ''green'', ''yellow'', ''red''])],
                     Str ''LST (Kelvin)''],
                  Call ''Map.addLayer''
                    [Img (Image_clip uhiClasses analysisBoundary),
                     Dict [(''min'', Num 1), (''max'', Num 5),
                           (''palette'',
                            Strs [''white'', ''yellow'', ''orange'', ''red'', ''darkred''])],
                     Str ''UHI Classes''],
                  Call ''Map.addLayerControl'' [],
                  Call ''Map.save'' [Str ''uhi_map.html'']]"
    have c: "k < length calls"
      "list_all (\<lambda>e. \<exists>name args. e = Call name args) calls"
      using a(1) by (simp_all add: calls_def)
    from visualize_first_fault[OF a, of medianThermal uhiClasses analysisBoundary] ne
    have run: "visualize_interactive w medianThermal uhiClasses analysisBoundary centralCoord s =
      (Inl e,
       s\<lparr>trace := trace s @
           Print [Str ''\<newline>Creating interactive visualization...''] # take (Suc k) calls,
         ncalls := ncalls s + Suc k\<rparr>)"
      unfolding calls_def by (cases e) simp_all
    from take_calls_last[OF c]
    have l: "\<exists>name args. last (trace s @
           Print [Str ''\<newline>Creating interactive visualization...''] # take (Suc k) calls)
           = Call name args" .
    show "fst (visualize_interactive w medianThermal uhiClasses
            analysisBoundary centralCoord s) = Inl e \<and>
      (\<exists>name args.
         last (trace (snd (visualize_interactive w medianThermal uhiClasses
                 analysisBoundary centralCoord s)))
           = Call name args) \<and>
      io_then (visualize_interactive w medianThermal uhiClasses analysisBoundary centralCoord)
        closing_prints s =
      visualize_interactive w medianThermal uhiClasses analysisBoundary centralCoord s"
      using l by (simp add: io_then_def io_bind_def run)
  qed
  show "(length centralCoord < 2 \<longrightarrow>
      visualize_interactive w medianThermal uhiClasses analysisBoundary centralCoord s =
        (Inr (),
         s\<lparr>trace := trace s @
             [Print [Str ''\<newline>Creating interactive visualization...''],
              Print [Str ''Could not create interactive map: '',
                     Err (Exception ''list index out of range'')],
              Print [Str ''  (geemap may not be installed. Install with: pip install geemap)'']]\<rparr>))"
  proof (intro impI)
    assume "length centralCoord < 2"
    then have "\<not> Suc 0 < length centralCoord" by simp
    then show "visualize_interactive w medianThermal uhiClasses analysisBoundary centralCoord s =
        (Inr (),
         s\<lparr>trace := trace s @
             [Print [Str ''\<newline>Creating interactive visualization...''],
              Print [Str ''Could not create interactive map: '',
                     Err (Exception ''list index out of range'')],
              Print [Str ''  (geemap may not be installed. Install with: pip install geemap)'']]\<rparr>)"
      by (simp add: visualize_interactive_def index_def io_step Let_def)
  qed
  show "(\<forall>t. visualize_interactive w medianThermal uhiClasses
          analysisBoundary centralCoord s = (Inr (), t) \<longrightarrow>
      io_then (visualize_interactive w medianThermal uhiClasses analysisBoundary centralCoord)
        closing_prints s =
        (Inr (),
         t\<lparr>trace := trace t @
             [Print [Str (CHR 0x0A # replicate 60 CHR ''='')],
              Print [Str ''Analysis Complete!''],
              Print [Str (replicate 60 CHR ''='')],
              Print [Str ''\<newline>Next Steps:''],
              Print [Str ''  1. Check your Google Drive for the exported GeoTIFF''],
              Print [Str ''  2. Open uhi_map.html in your browser for visualization''],
              Print [Str ''  3. Use QGIS or ArcGIS to further analyze the results''],
              Print [Str ''\<newline>For real-time task status, visit:''],
              Print [Str ''  https://code.earthengine.google.com/tasks''],
              Print [Str (replicate 60 CHR ''='')]]\<rparr>))"
    by (simp add: io_then_def[of "visualize_interactive w medianThermal uhiClasses
            analysisBoundary centralCoord"]
        io_bind_def closing_prints_run)
qed

theorem visualization_failure_is_not_fatal_witness:
  "fst (visualize_interactive demo_map_failure demo_median demo_index [demo_region]
          [80.2707, 13.0827] initial_state) = Inr () \<and>
   (\<exists>pre. trace (snd (visualize_interactive demo_map_failure demo_median demo_index
                        [demo_region] [80.2707, 13.0827] initial_state)) = pre @
      [Print [Str ''Could not create interactive map: '',
              Err (Exception ''map server unreachable'')],
       Print [Str ''  (geemap may not be installed. Install with: pip install geemap)'']]) \<and>
   fst (io_then (visualize_interactive demo_map_failure demo_median demo_index [demo_region]
                   [80.2707, 13.0827]) closing_prints initial_state) = Inr () \<and>
   exit_status (fst (io_then (visualize_interactive demo_map_failure demo_median demo_index
                   [demo_region] [80.2707, 13.0827]) closing_prints initial_state)) = 0 \<and>
   fst (visualize_interactive demo_interrupted demo_median demo_index [demo_region]
          [80.2707, 13.0827] initial_state) = Inl KeyboardInterrupt \<and>
   fst (io_then (visualize_interactive demo_interrupted demo_median demo_index [demo_region]
                   [80.2707, 13.0827]) closing_prints initial_state) = Inl KeyboardInterrupt"
proof -
  note caught = visualization_failure_is_not_fatal[of demo_map_failure demo_median demo_index
      "[demo_region]" "[80.2707, 13.0827]" initial_state]
  note passed = visualization_failure_is_not_fatal[of demo_interrupted demo_median demo_index
      "[demo_region]" "[80.2707, 13.0827]" initial_state]
  have only: "only_Exception_from demo_map_failure (ncalls initial_state)"
    by (simp add: only_Exception_from_def demo_map_failure_def)
  from caught only have a:
    "fst (visualize_interactive demo_map_failure demo_median demo_index [demo_region]
          [80.2707, 13.0827] initial_state) = Inr ()"
    "fst (io_then (visualize_interactive demo_map_failure demo_median demo_index [demo_region]
                   [80.2707, 13.0827]) closing_prints initial_state) = Inr ()"
    "exit_status (fst (io_then (visualize_interactive demo_map_failure demo_median demo_index
                   [demo_region] [80.2707, 13.0827]) closing_prints initial_state)) = 0"
    by auto
  from caught have "\<forall>k msg. k < 5 \<longrightarrow> 2 \<le> length [80.2707, 13.0827 :: real] \<longrightarrow>
      (\<forall>j<k. faults demo_map_failure (ncalls initial_state + j) = None) \<longrightarrow>
      faults demo_map_failure (ncalls initial_state + k) = Some (Exception msg) \<longrightarrow>
      (\<exists>t pre. visualize_interactive demo_map_failure demo_median demo_index [demo_region]
                  [80.2707, 13.0827] initial_state = (Inr (), t) \<and>
         trace t = pre @
           [Print [Str ''Could not create interactive map: '', Err (Exception msg)],
            Print [Str ''  (geemap may not be installed. Install with: pip install geemap)'']])"
    by blast
  note first_caught = this
  have "\<exists>t pre. visualize_interactive demo_map_failure demo_median demo_index [demo_region]
                  [80.2707, 13.0827] initial_state = (Inr (), t) \<and>
         trace t = pre @
           [Print [Str ''Could not create interactive map: '',
                   Err (Exception ''map server unreachable'')],
            Print [Str ''  (geemap may not be installed. Install with: pip install geemap)'']]"
    by (rule first_caught[rule_format, of 0 "''map server unreachable''"])
       (simp_all add: demo_map_failure_def initial_state_def)
  then have b: "\<exists>pre. trace (snd (visualize_interactive demo_map_failure demo_median demo_index
                        [demo_region] [80.2707, 13.0827] initial_state)) = pre @
      [Print [Str ''Could not create interactive map: '',
              Err (Exception ''map server unreachable'')],
       Print [Str ''  (geemap may not be installed. Install with: pip install geemap)'']]"
    by auto
  from passed have "\<forall>k e. k < 5 \<longrightarrow> 2 \<le> length [80.2707, 13.0827 :: real] \<longrightarrow>
      (\<forall>j<k. faults demo_interrupted (ncalls initial_state + j) = None) \<longrightarrow>
      faults demo_interrupted (ncalls initial_state + k) = Some e \<longrightarrow>
      (\<forall>msg. e \<noteq> Exception msg) \<longrightarrow>
      fst (visualize_interactive demo_interrupted demo_median demo_index [demo_region]
             [80.2707, 13.0827] initial_state) = Inl e \<and>
      (\<exists>name args.
         last (trace (snd (visualize_interactive demo_interrupted demo_median demo_index
                             [demo_region] [80.2707, 13.0827] initial_state)))
           = Call name args) \<and>
      io_then (visualize_interactive demo_interrupted demo_median demo_index [demo_region]
                 [80.2707, 13.0827])
        closing_prints initial_state =
      visualize_interactive demo_interrupted demo_median demo_index [demo_region]
        [80.2707, 13.0827] initial_state"
    by blast
  note first_passed = this
  have "fst (visualize_interactive demo_interrupted demo_median demo_index [demo_region]
             [80.2707, 13.0827] initial_state) = Inl KeyboardInterrupt \<and>
      (\<exists>name args.
         last (trace (snd (visualize_interactive demo_interrupted demo_median demo_index
                             [demo_region] [80.2707, 13.0827] initial_state)))
           = Call name args) \<and>
      io_then (visualize_interactive demo_interrupted demo_median demo_index [demo_region]
                 [80.2707, 13.0827])
        closing_prints initial_state =
      visualize_interactive demo_interrupted demo_median demo_index [demo_region]
        [80.2707, 13.0827] initial_state"
    by (rule first_passed[rule_format, of 0 KeyboardInterrupt])
       (simp_all add: demo_interrupted_def initial_state_def)
  then have c: "fst (visualize_interactive demo_interrupted demo_median demo_index [demo_region]
          [80.2707, 13.0827] initial_state) = Inl KeyboardInterrupt"
    "fst (io_then (visualize_interactive demo_interrupted demo_median demo_index [demo_region]
                   [80.2707, 13.0827]) closing_prints initial_state) = Inl KeyboardInterrupt"
    by simp_all
  from a b c show ?thesis by blast
qed

text \<open>
  Claim C6 as stated fails. The visualization step is called from a fresh state, with
  the configured coordinate, in a world where its first library call, \<^verbatim>\<open>geemap.Map\<close>,
  raises \<^verbatim>\<open>KeyboardInterrupt\<close>: \<^verbatim>\<open>except Exception\<close> does not catch it, no warning is
  printed, the step ends with that exception, and the closing lines that follow the step
  in the driver are not printed.
\<close>

theorem visualization_interrupt_counterexample:
  "visualize_interactive demo_interrupted demo_median demo_index [demo_region]
     [80.2707, 13.0827] initial_state =
     (Inl KeyboardInterrupt,
      \<lparr>trace =
         [Print [Str ''\<newline>Creating interactive visualization...''],
          Call ''geemap.Map'' [Kw ''center'' (Coords [13.0827, 80.2707]),
                               Kw ''zoom'' (Num 10)]],
       ncalls = 1\<rparr>) \<and>
   io_then (visualize_interactive demo_interrupted demo_median demo_index [demo_region]
              [80.2707, 13.0827]) closing_prints initial_state =
     (Inl KeyboardInterrupt,
      \<lparr>trace =
         [Print [Str ''\<newline>Creating interactive visualization...''],
          Call ''geemap.Map'' [Kw ''center'' (Coords [13.0827, 80.2707]),
                               Kw ''zoom'' (Num 10)]],
       ncalls = 1\<rparr>) \<and>
   exit_status (fst (io_then (visualize_interactive demo_interrupted demo_median demo_index
                   [demo_region] [80.2707, 13.0827]) closing_prints initial_state)) = 130"
proof -
  have f: "faults demo_interrupted 0 = Some KeyboardInterrupt"
    by (simp add: demo_interrupted_def)
  have "visualize_interactive demo_interrupted demo_median demo_index [demo_region]
     [80.2707, 13.0827] initial_state =
     (Inl KeyboardInterrupt,
      \<lparr>trace =
         [Print [Str ''\<newline>Creating interactive visualization...''],
          Call ''geemap.Map'' [Kw ''center'' (Coords [13.0827, 80.2707]),
                               Kw ''zoom'' (Num 10)]],
       ncalls = 1\<rparr>)"
    by (simp add: visualize_interactive_def index_def io_step Let_def initial_state_def f)
  then show ?thesis by (simp add: io_then_def io_bind_def)
qed

section \<open>The export step\<close>

lemma export_run:
  "export_to_drive w u b folder s =
     (case faults w (ncalls s) of
        Some e \<Rightarrow>
          (Inl e,
           s\<lparr>trace := trace s @
               [Print [Str ''\<newline>Exporting to Google Drive ('', Str folder, Str ''/)...''],
                Call ''ee.batch.Export.image.toDrive'' (toDrive_args u b folder)],
             ncalls := ncalls s + 1\<rparr>)
      | None \<Rightarrow>
         (case faults w (Suc (ncalls s)) of
            Some e \<Rightarrow>
              (Inl e,
               s\<lparr>trace := trace s @
                   [Print [Str ''\<newline>Exporting to Google Drive ('', Str folder, Str ''/)...''],
                    Call ''ee.batch.Export.image.toDrive'' (toDrive_args u b folder),
                    Call ''Task.start'' []],
                 ncalls := ncalls s + 2\<rparr>)
          | None \<Rightarrow>
              (Inr \<lparr>task_args = toDrive_args u b folder, task_id = Some (sv_task_id w)\<rparr>,
               s\<lparr>trace := trace s @
                   [Print [Str ''\<newline>Exporting to Google Drive ('', Str folder, Str ''/)...''],
                    Call ''ee.batch.Export.image.toDrive'' (toDrive_args u b folder),
                    Call ''Task.start'' [],
                    Print [Str ''Export task started: '', Str (sv_task_id w)],
                    Print [Str ''  Check your Google Drive ('', Str folder, Str ''/) for results''],
                    Print [Str ''  Task ID: '', Str (sv_task_id w)]],
                 ncalls := ncalls s + 2\<rparr>)))"
  by (simp add: export_to_drive_def io_step Let_def toDrive_args_def shown_id_def
      split: option.splits)

lemma export_events:
  "\<exists>new. trace (snd (export_to_drive w u b folder s)) = trace s @ new \<and>
     (\<forall>name args. Call name args \<in> set new \<longrightarrow>
        name \<in> {''ee.batch.Export.image.toDrive'', ''Task.start''}) \<and>
     (\<forall>name args. Call name args \<notin> set (after_start new)) \<and>
     ncalls (snd (export_to_drive w u b folder s)) \<le> ncalls s + 2"
proof (cases "faults w (ncalls s)")
  case (Some e)
  then show ?thesis by (simp add: export_run after_start_def)
next
  case None
  show ?thesis
  proof (cases "faults w (Suc (ncalls s))")
    case (Some e)
    with None show ?thesis by (simp add: export_run after_start_def; blast?)
  next
    case n2: None
    with None show ?thesis by (simp add: export_run after_start_def; blast?)
  qed
qed

text \<open>
  Claim C7. When neither library call of the export step raises, \<^verbatim>\<open>export_to_drive\<close>
  creates the task, starts it, prints the task identifier and returns the task: these
  are all its events, and it makes exactly two library calls. When creating or starting
  the task raises, the exception leaves the step unhandled. From every state and in
  every world, the only library calls the step makes are \<^verbatim>\<open>toDrive\<close> and
  \<^verbatim>\<open>Task.start\<close>, at most two calls, and after \<^verbatim>\<open>Task.start\<close> it makes no library
  call at all: nothing waits for the task or asks for its status.
\<close>

theorem export_is_fire_and_forget:
  "(faults w (ncalls s) = None \<longrightarrow> faults w (Suc (ncalls s)) = None \<longrightarrow>
      export_to_drive w uhiClasses analysisBoundary output_folder s =
        (Inr \<lparr>task_args = toDrive_args uhiClasses analysisBoundary output_folder,
              task_id = Some (sv_task_id w)\<rparr>,
         s\<lparr>trace := trace s @
             [Print [Str ''\<newline>Exporting to Google Drive ('', Str output_folder, Str ''/)...''],
              Call ''ee.batch.Export.image.toDrive''
                (toDrive_args uhiClasses analysisBoundary output_folder),
              Call ''Task.start'' [],
              Print [Str ''Export task started: '', Str (sv_task_id w)],
              Print [Str ''  Check your Google Drive ('', Str output_folder,
                     Str ''/) for results''],
              Print [Str ''  Task ID: '', Str (sv_task_id w)]],
           ncalls := ncalls s + 2\<rparr>))
   \<and>
   (\<forall>e. faults w (ncalls s) = None \<longrightarrow> faults w (Suc (ncalls s)) = Some e \<longrightarrow>
      fst (export_to_drive w uhiClasses analysisBoundary output_folder s) = Inl e)
   \<and>
   (\<forall>e. faults w (ncalls s) = Some e \<longrightarrow>
      fst (export_to_drive w uhiClasses analysisBoundary output_folder s) = Inl e)
   \<and>
   (\<exists>new. trace (snd (export_to_drive w uhiClasses analysisBoundary output_folder s))
            = trace s @ new \<and>
      (\<forall>name args. Call name args \<in> set new \<longrightarrow>
         name \<in> {''ee.batch.Export.image.toDrive'', ''Task.start''}) \<and>
      (\<forall>name args. Call name args \<notin> set (after_start new)) \<and>
      ncalls (snd (export_to_drive w uhiClasses analysisBoundary output_folder s))
        \<le> ncalls s + 2)"
proof (intro conjI)
  show "faults w (ncalls s) = None \<longrightarrow> faults w (Suc (ncalls s)) = None \<longrightarrow>
      export_to_drive w uhiClasses analysisBoundary output_folder s =
        (Inr \<lparr>task_args = toDrive_args uhiClasses analysisBoundary output_folder,
              task_id = Some (sv_task_id w)\<rparr>,
         s\<lparr>trace := trace s @
             [Print [Str ''\<newline>Exporting to Google Drive ('', Str output_folder, Str ''/)...''],
              Call ''ee.batch.Export.image.toDrive''
                (toDrive_args uhiClasses analysisBoundary output_folder),
              Call ''Task.start'' [],
              Print [Str ''Export task started: '', Str (sv_task_id w)],
              Print [Str ''  Check your Google Drive ('', Str output_folder,
                     Str ''/) for results''],
              Print [Str ''  Task ID: '', Str (sv_task_id w)]],
           ncalls := ncalls s + 2\<rparr>)"
    by (simp add: export_run)
  show "\<forall>e. faults w (ncalls s) = None \<longrightarrow> faults w (Suc (ncalls s)) = Some e \<longrightarrow>
      fst (export_to_drive w uhiClasses analysisBoundary output_folder s) = Inl e"
    by (simp add: export_run)
  show "\<forall>e. faults w (ncalls s) = Some e \<longrightarrow>
      fst (export_to_drive w uhiClasses analysisBoundary output_folder s) = Inl e"
    by (simp add: export_run)
  show "\<exists>new. trace (snd (export_to_drive w uhiClasses analysisBoundary output_folder s))
            = trace s @ new \<and>
      (\<forall>name args. Call name args \<in> set new \<longrightarrow>
         name \<in> {''ee.batch.Export.image.toDrive'', ''Task.start''}) \<and>
      (\<forall>name args. Call name args \<notin> set (after_start new)) \<and>
      ncalls (snd (export_to_drive w uhiClasses analysisBoundary output_folder s))
        \<le> ncalls s + 2"
    by (rule export_events)
qed

theorem export_is_fire_and_forget_witness:
  "export_to_drive demo_world demo_index [demo_region] ''UrbanHeat'' initial_state =
     (Inr \<lparr>task_args = toDrive_args demo_index [demo_region] ''UrbanHeat'',
           task_id = Some ''TASK0001''\<rparr>,
      \<lparr>trace =
         [Print [Str ''\<newline>Exporting to Google Drive ('', Str ''UrbanHeat'', Str ''/)...''],
          Call ''ee.batch.Export.image.toDrive''
            (toDrive_args demo_index [demo_region] ''UrbanHeat''),
          Call ''Task.start'' [],
          Print [Str ''Export task started: '', Str ''TASK0001''],
          Print [Str ''  Check your Google Drive ('', Str ''UrbanHeat'', Str ''/) for results''],
          Print [Str ''  Task ID: '', Str ''TASK0001'']],
       ncalls = 2\<rparr>) \<and>
   after_start (trace (snd (export_to_drive demo_world demo_index [demo_region] ''UrbanHeat''
                              initial_state))) =
     [Print [Str ''Export task started: '', Str ''TASK0001''],
      Print [Str ''  Check your Google Drive ('', Str ''UrbanHeat'', Str ''/) for results''],
      Print [Str ''  Task ID: '', Str ''TASK0001'']] \<and>
   fst (export_to_drive demo_start_failure demo_index [demo_region] ''UrbanHeat''
          initial_state) = Inl (Exception ''quota exceeded'') \<and>
   fst (export_to_drive demo_unauthenticated demo_index [demo_region] ''UrbanHeat''
          initial_state) = Inl (Exception ''Please authorize access'')"
proof -
  have ok: "faults demo_world (ncalls initial_state) = None"
    "faults demo_world (Suc (ncalls initial_state)) = None"
    by (simp_all add: demo_world_def)
  have bad: "faults demo_start_failure (ncalls initial_state) = None"
    "faults demo_start_failure (Suc (ncalls initial_state)) = Some (Exception ''quota exceeded'')"
    by (simp_all add: demo_start_failure_def initial_state_def)
  have worse: "faults demo_unauthenticated (ncalls initial_state)
                 = Some (Exception ''Please authorize access'')"
    by (simp add: demo_unauthenticated_def initial_state_def)
  have id: "sv_task_id demo_world = ''TASK0001''" by (simp add: demo_world_def)
  from export_is_fire_and_forget[of demo_world initial_state demo_index "[demo_region]"
      "''UrbanHeat''"] ok
  have a: "export_to_drive demo_world demo_index [demo_region] ''UrbanHeat'' initial_state =
     (Inr \<lparr>task_args = toDrive_args demo_index [demo_region] ''UrbanHeat'',
           task_id = Some ''TASK0001''\<rparr>,
      \<lparr>trace =
         [Print [Str ''\<newline>Exporting to Google Drive ('', Str ''UrbanHeat'', Str ''/)...''],
          Call ''ee.batch.Export.image.toDrive''
            (toDrive_args demo_index [demo_region] ''UrbanHeat''),
          Call ''Task.start'' [],
          Print [Str ''Export task started: '', Str ''TASK0001''],
          Print [Str ''  Check your Google Drive ('', Str ''UrbanHeat'', Str ''/) for results''],
          Print [Str ''  Task ID: '', Str ''TASK0001'']],
       ncalls = 2\<rparr>)"
    by (simp add: id initial_state_def)
  have a': "after_start (trace (snd (export_to_drive demo_world demo_index [demo_region]
                              ''UrbanHeat'' initial_state))) =
     [Print [Str ''Export task started: '', Str ''TASK0001''],
      Print [Str ''  Check your Google Drive ('', Str ''UrbanHeat'', Str ''/) for results''],
      Print [Str ''  Task ID: '', Str ''TASK0001'']]"
    unfolding a by (simp add: after_start_def)
  from export_is_fire_and_forget[of demo_start_failure initial_state demo_index
      "[demo_region]" "''UrbanHeat''"] bad
  have b: "fst (export_to_drive demo_start_failure demo_index [demo_region] ''UrbanHeat''
          initial_state) = Inl (Exception ''quota exceeded'')"
    by blast
  from export_is_fire_and_forget[of demo_unauthenticated initial_state demo_index
      "[demo_region]" "''UrbanHeat''"] worse
  have c: "fst (export_to_drive demo_unauthenticated demo_index [demo_region] ''UrbanHeat''
          initial_state) = Inl (Exception ''Please authorize access'')"
    by blast
  from a a' b c show ?thesis by blast
qed

section \<open>The export job\<close>

lemma submitted_jobs_append:
  "submitted_jobs (xs @ ys) = submitted_jobs xs @ submitted_jobs ys"
  by (induction xs rule: submitted_jobs.induct) simp_all

lemma export_submits_one_job:
  "submitted_jobs (trace (snd (export_to_drive w u b folder s))) =
     submitted_jobs (trace s) @ [toDrive_args u b folder]"
  by (simp add: export_run submitted_jobs_append split: option.splits)

lemma toDrive_args_lookup:
  "kwarg ''image'' (toDrive_args u b folder) = Some (Img (Image_clip u b))"
  "kwarg ''folder'' (toDrive_args u b folder) = Some (Str folder)"
  "kwarg ''fileNamePrefix'' (toDrive_args u b folder) = Some (Str ''uhi_classes'')"
  "kwarg ''region'' (toDrive_args u b folder) = Some (Reg b)"
  by (simp_all add: toDrive_args_def)

text \<open>
  Claim C9, as the code has it. Whatever the world, the state and the arguments, the
  export step creates exactly one export job; its folder is the caller's
  \<^verbatim>\<open>output_folder\<close>, and its file name prefix is the fixed text \<^verbatim>\<open>uhi_classes\<close>,
  which no argument of the step influences.
\<close>

theorem export_folder_is_configurable_file_name_is_fixed:
  "submitted_jobs (trace (snd (export_to_drive w uhiClasses analysisBoundary output_folder s))) =
     submitted_jobs (trace s) @ [toDrive_args uhiClasses analysisBoundary output_folder] \<and>
   kwarg ''folder'' (toDrive_args uhiClasses analysisBoundary output_folder)
     = Some (Str output_folder) \<and>
   kwarg ''fileNamePrefix'' (toDrive_args uhiClasses analysisBoundary output_folder)
     = Some (Str ''uhi_classes'')"
  by (simp add: export_submits_one_job toDrive_args_lookup)

theorem export_folder_is_configurable_file_name_is_fixed_witness:
  "map (kwarg ''folder'')
     (submitted_jobs (trace (snd (export_to_drive demo_world demo_index [demo_region]
        ''Results2024'' initial_state)))) = [Some (Str ''Results2024'')] \<and>
   map (kwarg ''fileNamePrefix'')
     (submitted_jobs (trace (snd (export_to_drive demo_world demo_index [demo_region]
        ''Results2024'' initial_state)))) = [Some (Str ''uhi_classes'')]"
  using export_folder_is_configurable_file_name_is_fixed[of demo_world demo_index
      "[demo_region]" "''Results2024''" initial_state]
  by (simp add: initial_state_def)

text \<open>
  Claim C9 as stated fails: the step has one text parameter, and a caller who passes
  \<^verbatim>\<open>heat_2024\<close> through it gets a job in the folder \<^verbatim>\<open>heat_2024\<close> whose file name
  prefix is still \<^verbatim>\<open>uhi_classes\<close>.
\<close>

theorem file_name_is_not_configurable_counterexample:
  "map (kwarg ''fileNamePrefix'')
     (submitted_jobs (trace (snd (export_to_drive demo_world demo_index [demo_region]
        ''heat_2024'' initial_state)))) = [Some (Str ''uhi_classes'')] \<and>
   map (kwarg ''folder'')
     (submitted_jobs (trace (snd (export_to_drive demo_world demo_index [demo_region]
        ''heat_2024'' initial_state)))) = [Some (Str ''heat_2024'')] \<and>
   Str ''uhi_classes'' \<noteq> Str ''heat_2024''"
  by (simp add: export_submits_one_job toDrive_args_lookup initial_state_def)

text \<open>
  Claim C10. The one job the export step creates carries the classified raster clipped
  to the analysis boundary, and the boundary as its region; the clipped raster has no
  value at any pixel that no feature of the boundary covers and the value of the
  classified raster at every pixel that one covers; the job is created, with the
  clipped raster in it, before the task is started. Rasters are values: clipping
  yields a new raster and leaves the classified raster as it was.
\<close>

theorem export_clips_to_boundary:
  "submitted_jobs (trace (snd (export_to_drive w uhiClasses analysisBoundary output_folder s))) =
     submitted_jobs (trace s) @ [toDrive_args uhiClasses analysisBoundary output_folder] \<and>
   kwarg ''image'' (toDrive_args uhiClasses analysisBoundary output_folder)
     = Some (Img (Image_clip uhiClasses analysisBoundary)) \<and>
   kwarg ''region'' (toDrive_args uhiClasses analysisBoundary output_folder)
     = Some (Reg analysisBoundary) \<and>
   (\<forall>p. (\<forall>g\<in>set analysisBoundary. \<not> g p) \<longrightarrow>
        px (Image_clip uhiClasses analysisBoundary) p = None) \<and>
   (\<forall>p. (\<exists>g\<in>set analysisBoundary. g p) \<longrightarrow>
        px (Image_clip uhiClasses analysisBoundary) p = px uhiClasses p) \<and>
   takeWhile (\<lambda>e. e \<noteq> Call ''Task.start'' [])
     (drop (length (trace s))
        (trace (snd (export_to_drive w uhiClasses analysisBoundary output_folder s)))) =
     [Print [Str ''\<newline>Exporting to Google Drive ('', Str output_folder, Str ''/)...''],
      Call ''ee.batch.Export.image.toDrive''
        (toDrive_args uhiClasses analysisBoundary output_folder)]"
proof (intro conjI allI impI)
  show "submitted_jobs (trace (snd (export_to_drive w uhiClasses analysisBoundary
          output_folder s))) =
     submitted_jobs (trace s) @ [toDrive_args uhiClasses analysisBoundary output_folder]"
    by (rule export_submits_one_job)
  show "kwarg ''image'' (toDrive_args uhiClasses analysisBoundary output_folder)
     = Some (Img (Image_clip uhiClasses analysisBoundary))"
    by (rule toDrive_args_lookup)
  show "kwarg ''region'' (toDrive_args uhiClasses analysisBoundary output_folder)
     = Some (Reg analysisBoundary)"
    by (rule toDrive_args_lookup)
  show "px (Image_clip uhiClasses analysisBoundary) p = None"
    if "\<forall>g\<in>set analysisBoundary. \<not> g p" for p
    using that by (auto simp: px_clip)
  show "px (Image_clip uhiClasses analysisBoundary) p = px uhiClasses p"
    if "\<exists>g\<in>set analysisBoundary. g p" for p
    using that by (auto simp: px_clip)
  show "takeWhile (\<lambda>e. e \<noteq> Call ''Task.start'' [])
     (drop (length (trace s))
        (trace (snd (export_to_drive w uhiClasses analysisBoundary output_folder s)))) =
     [Print [Str ''\<newline>Exporting to Google Drive ('', Str output_folder, Str ''/)...''],
      Call ''ee.batch.Export.image.toDrive''
        (toDrive_args uhiClasses analysisBoundary output_folder)]"
    by (simp add: export_run split: option.splits)
qed

theorem export_clips_to_boundary_witness:
  "kwarg ''image'' (toDrive_args demo_index [demo_region] ''UrbanHeat'')
     = Some (Img (Image_clip demo_index [demo_region])) \<and>
   px (Image_clip demo_index [demo_region]) (5, 5) = None \<and>
   px (Image_clip demo_index [demo_region]) (0, 0) = Some 0.007"
proof -
  have out: "\<forall>g\<in>set [demo_region]. \<not> g (5, 5)" by (simp add: demo_region_def)
  have inside: "\<exists>g\<in>set [demo_region]. g (0, 0)" by (simp add: demo_region_def)
  have v: "px demo_index (0, 0) = Some 0.007" by (simp add: demo_index_def)
  from export_clips_to_boundary[of demo_world demo_index "[demo_region]" "''UrbanHeat''"
      initial_state] out inside v
  show ?thesis by simp
qed

section \<open>Configuration values in the calls\<close>

lemma index_pair: "index [a, b] 1 = io_return b" "index [a, b] 0 = io_return a"
  by (simp_all add: index_def)

lemma emits_config: "emits receives_config_as_coded (main w)"
  unfolding main_def Let_def visualize_interactive_def index_pair io_bind_return
  unfolding step_defs Let_def
  by (intro emits_rules emits_print emits_call)
     (simp_all add: receives_config_as_coded_def coords_received_def dates_received_def
        is_map_constructor_def)

lemma visualize_no_fault:
  assumes len: "2 \<le> length centralCoord"
    and none: "\<forall>j<5. faults w (ncalls s + j) = None"
  shows "visualize_interactive w medianThermal uhiClasses analysisBoundary centralCoord s =
     (Inr (),
      s\<lparr>trace := trace s @
          [Print [Str ''\<newline>Creating interactive visualization...''],
           Call ''geemap.Map''
             [Kw ''center'' (Coords [centralCoord ! 1, centralCoord ! 0]),
              Kw ''zoom'' (Num 10)],
           Call ''Map.addLayer''
             [Img (Image_clip medianThermal analysisBoundary),
              Dict [(''min'', Num 280), (''max'', Num 310),
                    (''palette'', Strs [''blue'', ''cyan'', ''green'', ''yellow'', ''red''])],
              Str ''LST (Kelvin)''],
           Call ''Map.addLayer''
             [Img (Image_clip uhiClasses analysisBoundary),
              Dict [(''min'', Num 1), (''max'', Num 5),
                    (''palette'',
                     Strs [''white'', ''yellow'', ''orange'', ''red'', ''darkred''])],
              Str ''UHI Classes''],
           Call ''Map.addLayerControl'' [],
           Call ''Map.save'' [Str ''uhi_map.html''],
           Print [Str ''Interactive map saved: '', Str ''uhi_map.html''],
           Print [Str ''  Open this file in your browser to view the visualization'']],
        ncalls := ncalls s + 5\<rparr>)"
proof -
  have i: "Suc 0 < length centralCoord" "centralCoord \<noteq> []" using len by auto
  have f: "faults w (ncalls s) = None" "faults w (Suc (ncalls s)) = None"
    "faults w (Suc (Suc (ncalls s))) = None" "faults w (Suc (Suc (Suc (ncalls s)))) = None"
    "faults w (Suc (Suc (Suc (Suc (ncalls s))))) = None"
    using none[rule_format, of 0] none[rule_format, of 1] none[rule_format, of 2]
      none[rule_format, of 3] none[rule_format, of 4]
    by (simp_all add: numeral_eq_Suc)
  show ?thesis
    by (simp add: visualize_interactive_def index_def io_step Let_def i f)
qed

lemma first_fault:
  assumes "\<not> (\<forall>j<n. faults w (m + j) = None)"
  shows "\<exists>k e. k < n \<and> (\<forall>j<k. faults w (m + j) = None) \<and> faults w (m + k) = Some e"
proof -
  define k where "k = (LEAST j. j < n \<and> faults w (m + j) \<noteq> None)"
  from assms have ex: "\<exists>j. j < n \<and> faults w (m + j) \<noteq> None" by blast
  from LeastI_ex[OF ex] have k: "k < n" "faults w (m + k) \<noteq> None"
    unfolding k_def by blast+
  have "faults w (m + j) = None" if "j < k" for j
  proof (rule ccontr)
    assume "faults w (m + j) \<noteq> None"
    with that k(1) have "j < n \<and> faults w (m + j) \<noteq> None" by simp
    then have "k \<le> j" unfolding k_def by (rule Least_le)
    with that show False by simp
  qed
  with k show ?thesis by auto
qed

lemma visualize_calls_map_first:
  "\<exists>rest. trace (snd (visualize_interactive w medianThermal uhiClasses analysisBoundary
                         [lon, lat] s)) =
     trace s @
     [Print [Str ''\<newline>Creating interactive visualization...''],
      Call ''geemap.Map'' [Kw ''center'' (Coords [lat, lon]), Kw ''zoom'' (Num 10)]] @ rest"
proof (cases "\<forall>j<5. faults w (ncalls s + j) = None")
  case True
  have "2 \<le> length [lon, lat]" by simp
  from visualize_no_fault[OF this True, of medianThermal uhiClasses analysisBoundary]
  show ?thesis by simp
next
  case False
  from first_fault[OF False] obtain k e where
    k: "k < 5" "\<forall>j<k. faults w (ncalls s + j) = None" "faults w (ncalls s + k) = Some e"
    by blast
  have len: "2 \<le> length [lon, lat]" by simp
  from visualize_first_fault[OF k(1) len k(2,3), of medianThermal uhiClasses analysisBoundary]
  show ?thesis by (cases e) simp_all
qed

lemma emits_config_visualize:
  "emits receives_config_as_coded
     (visualize_interactive w medianThermal uhiClasses analysisBoundary [80.2707, 13.0827])"
  unfolding visualize_interactive_def Let_def index_pair io_bind_return
  by (intro emits_rules emits_print emits_call)
     (simp_all add: receives_config_as_coded_def coords_received_def dates_received_def
        is_map_constructor_def)

lemma fault_free_config_calls:
  assumes "\<forall>n<24. faults w n = None"
  shows "filter receives_config (trace (snd (script w))) =
     [Call ''ee.Geometry.Point'' [Coords [80.2707, 13.0827]],
      Call ''filterDate'' [Str ''2023-01-01'', Str ''2024-12-31''],
      Call ''filterDate'' [Str ''2023-01-01'', Str ''2024-12-31'']]"
proof -
  from fault_free_run[OF assms] obtain boundary count where
    run: "script w =
     (Inl (Exception ''TypeError''),
      \<lparr>trace =
         [Print [Str (replicate 60 CHR ''='')],
          Print [Str ''Urban Heat Island Detection using Landsat 8''],
          Print [Str ''Google Earth Engine Python API''],
          Print [Str (replicate 60 CHR ''='')],
          Call ''ee.Initialize'' [],
          Print [Str ''Earth Engine initialized successfully''],
          Print [Str ''\<newline>Configuration:''],
          Print [Str ''  Location: '', Coords [80.2707, 13.0827]],
          Print [Str ''  Analysis Period: '', Str ''2023-01-01'', Str '' to '',
                 Str ''2024-12-31''],
          Print [Str ''  Focus Months: May - September (summer)''],
          Print [Str ''\<newline>Loading FAO Admin Boundaries...''],
          Call ''ee.FeatureCollection'' [Str ''FAO/GAUL/2015/level1''],
          Print [Str ''\<newline>Extracting ROI for coordinates: '', Coords [80.2707, 13.0827]],
          Call ''ee.Geometry.Point'' [Coords [80.2707, 13.0827]],
          Call ''filterBounds'' [],
          Call ''map'' [],
          Print [Str ''\<newline>Loading Dynamic World urban classification...''],
          Call ''ee.ImageCollection'' [Str ''GOOGLE/DYNAMICWORLD/V1''],
          Call ''select'' [Str ''label''],
          Call ''filterDate'' [Str ''2023-01-01'', Str ''2024-12-31''],
          Call ''filterBounds'' [Reg boundary],
          Call ''ee.Filter.calendarRange'' [Num 5, Num 9, Str ''month''],
          Call ''filter'' [],
          Call ''mode'' [],
          Print [Str ''Urban mask created (Class 6 - Built Area)''],
          Print [Str ''\<newline>Loading Landsat 8 thermal data ('', Str ''2023-01-01'',
                 Str '' to '', Str ''2024-12-31'', Str '')...''],
          Call ''ee.ImageCollection'' [Str ''LANDSAT/LC08/C02/T1_L2''],
          Call ''select'' [Str ''ST_B10''],
          Call ''filterBounds'' [Reg boundary],
          Call ''filterDate'' [Str ''2023-01-01'', Str ''2024-12-31''],
          Call ''ee.Filter.lt'' [Str ''CLOUD_COVER'', Num 10],
          Call ''filter'' [],
          Call ''size'' [],
          Call ''getInfo'' [],
          Print [Str ''Found '', Num (real count),
                 Str '' Landsat 8 scenes (cloud cover < 10%)''],
          Call ''map'' [],
          Print [Str ''\<newline>Computing median Land Surface Temperature...''],
          Call ''median'' [],
          Call ''ee.Reducer.mean'' [],
          Call ''reduceRegion''
            [Dict [(''reducer'', Str ''mean''), (''geometry'', Reg boundary),
                   (''scale'', Num 100), (''maxPixels'', Num (10 ^ 13))]]],
       ncalls = 24\<rparr>)"
    by blast
  show ?thesis
    unfolding run
    by (simp add: receives_config_def coords_received_def dates_received_def)
qed

text \<open>
  Claim C8, as the code has it. In every run of the script, in every world, every call
  that receives a coordinate receives the configured pair \<open>[80.2707, 13.0827]\<close>, except
  the map constructor \<^verbatim>\<open>geemap.Map\<close>, which receives \<open>[13.0827, 80.2707]\<close>, and every
  \<^verbatim>\<open>filterDate\<close> call receives the configured start and end dates. When no library
  call up to \<^verbatim>\<open>reduceRegion\<close> raises, the first calls of the run that receive a
  coordinate or dates are \<^verbatim>\<open>ee.Geometry.Point\<close>, with the pair as configured, and the
  two \<^verbatim>\<open>filterDate\<close> calls, with the dates as configured. The visualization step, given a
  pair \<open>[lon, lat]\<close>, calls the map constructor first, from every state and in every
  world, with the centre \<open>[lat, lon]\<close>: the pair with its two components exchanged; no
  other call of the step receives a coordinate.
\<close>

theorem config_reaches_calls_as_coded:
  "list_all receives_config_as_coded (trace (snd (script w)))
   \<and>
   ((\<forall>n<24. faults w n = None) \<longrightarrow>
      (\<exists>rest. filter receives_config (trace (snd (script w))) =
        [Call ''ee.Geometry.Point'' [Coords [80.2707, 13.0827]],
         Call ''filterDate'' [Str ''2023-01-01'', Str ''2024-12-31''],
         Call ''filterDate'' [Str ''2023-01-01'', Str ''2024-12-31'']] @ rest))
   \<and>
   (\<exists>rest. trace (snd (visualize_interactive w medianThermal uhiClasses analysisBoundary
                          [lon, lat] s)) =
      trace s @
      [Print [Str ''\<newline>Creating interactive visualization...''],
       Call ''geemap.Map'' [Kw ''center'' (Coords [lat, lon]), Kw ''zoom'' (Num 10)]] @ rest)
   \<and>
   (\<exists>new. trace (snd (visualize_interactive w medianThermal uhiClasses analysisBoundary
                         [80.2707, 13.0827] s)) = trace s @ new \<and>
      list_all receives_config_as_coded new)"
proof (intro conjI impI)
  from emits_config[of w]
  obtain tr where "trace (snd (main w initial_state)) = trace initial_state @ tr"
    "list_all receives_config_as_coded tr"
    unfolding emits_def by blast
  then show "list_all receives_config_as_coded (trace (snd (script w)))"
    by (simp add: script_def initial_state_def)
next
  assume "\<forall>n<24. faults w n = None"
  then have "filter receives_config (trace (snd (script w))) =
        [Call ''ee.Geometry.Point'' [Coords [80.2707, 13.0827]],
         Call ''filterDate'' [Str ''2023-01-01'', Str ''2024-12-31''],
         Call ''filterDate'' [Str ''2023-01-01'', Str ''2024-12-31'']]"
    by (rule fault_free_config_calls)
  then show "\<exists>rest. filter receives_config (trace (snd (script w))) =
        [Call ''ee.Geometry.Point'' [Coords [80.2707, 13.0827]],
         Call ''filterDate'' [Str ''2023-01-01'', Str ''2024-12-31''],
         Call ''filterDate'' [Str ''2023-01-01'', Str ''2024-12-31'']] @ rest"
    by simp
next
  show "\<exists>rest. trace (snd (visualize_interactive w medianThermal uhiClasses analysisBoundary
                          [lon, lat] s)) =
      trace s @
      [Print [Str ''\<newline>Creating interactive visualization...''],
       Call ''geemap.Map'' [Kw ''center'' (Coords [lat, lon]), Kw ''zoom'' (Num 10)]] @ rest"
    by (rule visualize_calls_map_first)
next
  from emits_config_visualize[of w medianThermal uhiClasses analysisBoundary]
  show "\<exists>new. trace (snd (visualize_interactive w medianThermal uhiClasses analysisBoundary
                         [80.2707, 13.0827] s)) = trace s @ new \<and>
      list_all receives_config_as_coded new"
    unfolding emits_def by blast
qed

theorem config_reaches_calls_as_coded_witness:
  "(\<exists>rest. filter receives_config (trace (snd (script demo_world))) =
     [Call ''ee.Geometry.Point'' [Coords [80.2707, 13.0827]],
      Call ''filterDate'' [Str ''2023-01-01'', Str ''2024-12-31''],
      Call ''filterDate'' [Str ''2023-01-01'', Str ''2024-12-31'']] @ rest) \<and>
   receives_config_as_coded (Call ''ee.Geometry.Point'' [Coords [80.2707, 13.0827]]) \<and>
   receives_config_as_coded (Call ''filterDate'' [Str ''2023-01-01'', Str ''2024-12-31'']) \<and>
   (\<exists>rest. trace (snd (visualize_interactive demo_world demo_median demo_index [demo_region]
                          [80.2707, 13.0827] initial_state)) =
      [Print [Str ''\<newline>Creating interactive visualization...''],
       Call ''geemap.Map'' [Kw ''center'' (Coords [13.0827, 80.2707]), Kw ''zoom'' (Num 10)]]
      @ rest \<and>
      list_all receives_config_as_coded rest)"
proof -
  note inst = config_reaches_calls_as_coded[of demo_world demo_median demo_index
      "[demo_region]" "80.2707" "13.0827" initial_state]
  have nf: "\<forall>n<24. faults demo_world n = None" by (simp add: demo_world_def)
  from inst nf obtain more where
    calls: "filter receives_config (trace (snd (script demo_world))) =
     [Call ''ee.Geometry.Point'' [Coords [80.2707, 13.0827]],
      Call ''filterDate'' [Str ''2023-01-01'', Str ''2024-12-31''],
      Call ''filterDate'' [Str ''2023-01-01'', Str ''2024-12-31'']] @ more"
    by blast
  from inst have all: "list_all receives_config_as_coded (trace (snd (script demo_world)))"
    by blast
  have "set (filter receives_config (trace (snd (script demo_world))))
          \<subseteq> set (trace (snd (script demo_world)))"
    by simp
  with calls all have coded:
    "receives_config_as_coded (Call ''ee.Geometry.Point'' [Coords [80.2707, 13.0827]])"
    "receives_config_as_coded (Call ''filterDate'' [Str ''2023-01-01'', Str ''2024-12-31''])"
    unfolding list_all_iff by auto
  from inst obtain rest where rest:
    "trace (snd (visualize_interactive demo_world demo_median demo_index [demo_region]
                          [80.2707, 13.0827] initial_state)) =
      trace initial_state @
      [Print [Str ''\<newline>Creating interactive visualization...''],
       Call ''geemap.Map'' [Kw ''center'' (Coords [13.0827, 80.2707]), Kw ''zoom'' (Num 10)]]
      @ rest"
    by blast
  from inst obtain new where new:
    "trace (snd (visualize_interactive demo_world demo_median demo_index [demo_region]
                          [80.2707, 13.0827] initial_state)) = trace initial_state @ new"
    "list_all receives_config_as_coded new"
    by blast
  from rest new(1) have "new =
      [Print [Str ''\<newline>Creating interactive visualization...''],
       Call ''geemap.Map'' [Kw ''center'' (Coords [13.0827, 80.2707]), Kw ''zoom'' (Num 10)]]
      @ rest"
    by simp
  with new(2) have "list_all receives_config_as_coded rest" by simp
  with rest have "\<exists>rest. trace (snd (visualize_interactive demo_world demo_median demo_index
                          [demo_region] [80.2707, 13.0827] initial_state)) =
      [Print [Str ''\<newline>Creating interactive visualization...''],
       Call ''geemap.Map'' [Kw ''center'' (Coords [13.0827, 80.2707]), Kw ''zoom'' (Num 10)]]
      @ rest \<and>
      list_all receives_config_as_coded rest"
    by (auto simp: initial_state_def)
  with calls coded show ?thesis by blast
qed

text \<open>
  Claim C8 as stated fails. The visualization step is called with the coordinate pair
  as the driver configures it, \<open>[80.2707, 13.0827]\<close>, from a fresh state in the sample
  world: its map constructor receives the centre \<open>[13.0827, 80.2707]\<close>, a reordered copy
  of the configured pair.
\<close>

theorem config_coordinate_is_reordered_counterexample:
  "trace (snd (visualize_interactive demo_world demo_median demo_index [demo_region]
                 [80.2707, 13.0827] initial_state)) ! 1 =
     Call ''geemap.Map'' [Kw ''center'' (Coords [13.0827, 80.2707]), Kw ''zoom'' (Num 10)] \<and>
   coords_received
     (Call ''geemap.Map'' [Kw ''center'' (Coords [13.0827, 80.2707]), Kw ''zoom'' (Num 10)])
     = [[13.0827, 80.2707]] \<and>
   \<not> receives_config_unaltered
     (Call ''geemap.Map'' [Kw ''center'' (Coords [13.0827, 80.2707]), Kw ''zoom'' (Num 10)]) \<and>
   \<not> list_all receives_config_unaltered
       (trace (snd (visualize_interactive demo_world demo_median demo_index [demo_region]
                      [80.2707, 13.0827] initial_state)))"
proof -
  have nf: "faults demo_world n = None" for n by (simp add: demo_world_def)
  have run: "trace (snd (visualize_interactive demo_world demo_median demo_index [demo_region]
                 [80.2707, 13.0827] initial_state)) =
     [Print [Str ''\<newline>Creating interactive visualization...''],
      Call ''geemap.Map'' [Kw ''center'' (Coords [13.0827, 80.2707]), Kw ''zoom'' (Num 10)],
      Call ''Map.addLayer''
        [Img (Image_clip demo_median [demo_region]),
         Dict [(''min'', Num 280), (''max'', Num 310),
               (''palette'', Strs [''blue'', ''cyan'', ''green'', ''yellow'', ''red''])],
         Str ''LST (Kelvin)''],
      Call ''Map.addLayer''
        [Img (Image_clip demo_index [demo_region]),
         Dict [(''min'', Num 1), (''max'', Num 5),
               (''palette'', Strs [''white'', ''yellow'', ''orange'', ''red'', ''darkred''])],
         Str ''UHI Classes''],
      Call ''Map.addLayerControl'' [],
      Call ''Map.save'' [Str ''uhi_map.html''],
      Print [Str ''Interactive map saved: '', Str ''uhi_map.html''],
      Print [Str ''  Open this file in your browser to view the visualization'']]"
    by (simp add: visualize_interactive_def index_def io_step Let_def initial_state_def nf)
  have m: "trace (snd (visualize_interactive demo_world demo_median demo_index [demo_region]
                 [80.2707, 13.0827] initial_state)) ! 1 =
     Call ''geemap.Map'' [Kw ''center'' (Coords [13.0827, 80.2707]), Kw ''zoom'' (Num 10)]"
    unfolding run by simp
  have c: "coords_received
     (Call ''geemap.Map'' [Kw ''center'' (Coords [13.0827, 80.2707]), Kw ''zoom'' (Num 10)])
     = [[13.0827, 80.2707]]"
    by (simp add: coords_received_def)
  have n: "\<not> receives_config_unaltered
     (Call ''geemap.Map'' [Kw ''center'' (Coords [13.0827, 80.2707]), Kw ''zoom'' (Num 10)])"
    by (simp add: receives_config_unaltered_def coords_received_def)
  have "Call ''geemap.Map'' [Kw ''center'' (Coords [13.0827, 80.2707]), Kw ''zoom'' (Num 10)]
     \<in> set (trace (snd (visualize_interactive demo_world demo_median demo_index [demo_region]
                 [80.2707, 13.0827] initial_state)))"
    unfolding run by simp
  with n have "\<not> list_all receives_config_unaltered
       (trace (snd (visualize_interactive demo_world demo_median demo_index [demo_region]
                      [80.2707, 13.0827] initial_state)))"
    unfolding list_all_iff by blast
  with m c n show ?thesis by blast
qed

end
